theory Spec2Isabelle
  imports Main "HOL-Library.Sublist" "HOL-Library.Char_ord" "HOL-Library.List_Lexorder" "HOL-Library.AList"
begin

section \<open>Strings and numbers as the Go runtime prints them\<close>

text \<open>
  A Go string is a sequence of bytes; it is modelled as \<^typ>\<open>string\<close>, a list of 8-bit
  characters.  Go's \<open>int\<close> is modelled as \<^typ>\<open>int\<close>; where the program adds two of them
  the 64-bit wrap-around is written out (\<open>wrap_int\<close>).
\<close>

type_synonym go_int = int

definition wrap_int :: "int \<Rightarrow> go_int" where
  "wrap_int x = (x + 2 ^ 63) mod 2 ^ 64 - 2 ^ 63"

definition digit_char :: "nat \<Rightarrow> char" where
  "digit_char d = ''0123456789'' ! (d mod 10)"

function show_nat :: "nat \<Rightarrow> string" where
  "show_nat n = (if n < 10 then [digit_char n] else show_nat (n div 10) @ [digit_char (n mod 10)])"
  by pat_completeness auto
termination
  by (relation "measure (\<lambda>n. n)") auto

declare show_nat.simps [simp del]

text \<open>The verb \<open>%d\<close> of \<open>fmt\<close>, and what the template engine prints for an \<open>int\<close>.\<close>

definition show_int :: "go_int \<Rightarrow> string" where
  "show_int i = (if i < 0 then CHR ''-'' # show_nat (nat (- i)) else show_nat (nat i))"

text \<open>
  A \<open>float64\<close> is a NaN, an infinity with its sign, or a finite value
  \<open>(-1)^neg * mant * 2^exp\<close> (every finite \<open>float64\<close>, the two zeros included, has this
  form).
\<close>

datatype float64 = Finite (neg: bool) (mant: nat) (expo: int) | Infinity bool | NaN

definition pad_zeros :: "nat \<Rightarrow> string \<Rightarrow> string" where
  "pad_zeros w s = replicate (w - length s) CHR ''0'' @ s"

text \<open>
  \<open>strconv.FormatFloat(v, 'f', prec, 64)\<close>, which is what the verb \<open>%.<prec>f\<close> prints: the
  exact binary value rounded to \<open>prec\<close> decimals, ties to even; the special values print
  as \<open>NaN\<close>, \<open>+Inf\<close> and \<open>-Inf\<close>.
\<close>

definition round_half_even :: "nat \<Rightarrow> nat \<Rightarrow> nat" where
  "round_half_even num den =
     (let q = num div den; r = num mod den
      in if den < 2 * r \<or> (2 * r = den \<and> odd q) then q + 1 else q)"

fun FormatFloat_f :: "float64 \<Rightarrow> nat \<Rightarrow> string" where
  "FormatFloat_f NaN prec = ''NaN''"
| "FormatFloat_f (Infinity isneg) prec = (if isneg then ''-Inf'' else ''+Inf'')"
| "FormatFloat_f (Finite isneg m e) prec =
     (let num = m * 10 ^ prec * (if 0 \<le> e then 2 ^ nat e else 1);
          den = (if 0 \<le> e then 1 else 2 ^ nat (- e));
          t = round_half_even num den
      in (if isneg then ''-'' else '''') @ show_nat (t div 10 ^ prec) @
         (if prec = 0 then '''' else CHR ''.'' # pad_zeros prec (show_nat (t mod 10 ^ prec))))"

text \<open>
  \<open>strings.ReplaceAll(s, old, new)\<close>: the non-overlapping occurrences of \<open>old\<close>, found left to
  right, are replaced by \<open>new\<close>.  The program only calls it with a one-byte \<open>old\<close>; for the
  empty pattern Go inserts \<open>new\<close> before every character and at the end, which the first
  branch gives for ASCII text.
\<close>

function replace_from :: "string \<Rightarrow> string \<Rightarrow> string \<Rightarrow> string" where
  "replace_from old new [] = []"
| "replace_from old new (c # cs) =
     (if old \<noteq> [] \<and> prefix old (c # cs)
      then new @ replace_from old new (drop (length old) (c # cs))
      else c # replace_from old new cs)"
  by pat_completeness auto
termination
  by (relation "measure (\<lambda>(old, new, s). length s)") (auto simp: neq_Nil_conv)

definition ReplaceAll :: "string \<Rightarrow> string \<Rightarrow> string \<Rightarrow> string" where
  "ReplaceAll s old new =
     (if old = [] then new @ concat (map (\<lambda>c. c # new) s) else replace_from old new s)"

section \<open>Errors\<close>

text \<open>
  A Go \<open>error\<close> value is either one that a library call returned (kept as its text), one
  that the program built with \<open>fmt.Errorf(msg + ": %w", err)\<close> around a cause, or the
  template engine's complaint about a field read through a nil pointer.  A run-time panic
  is an outcome of its own.
\<close>

datatype error =
    LibraryError string
  | Errorf string error
  | NilPointer string
  | Panic string

fun Error_text :: "error \<Rightarrow> string" where
  "Error_text (LibraryError s) = s"
| "Error_text (Errorf msg err) = msg @ '': '' @ Error_text err"
| "Error_text (NilPointer field) = ''nil pointer evaluating '' @ field"
| "Error_text (Panic s) = s"

section \<open>Package git: the library objects the analysis reads\<close>

text \<open>
  The version-control library (go-git) is outside the program.  Each object of the library
  is a record holding what the calls the program makes on it return: a call that may fail
  returns \<open>error + value\<close>, a pointer that may be nil is an \<open>option\<close>.
\<close>

record FileStat =
  Name :: string
  Addition :: go_int
  Deletion :: go_int

text \<open>
  \<open>FilePatch.Files()\<close> returns the file before and the file after the change; either may
  be nil.  Only \<open>Path()\<close> of a file is read, so a file is its path.
\<close>

record FilePatch =
  Files_from :: "string option"
  Files_to :: "string option"

record Patch =
  FilePatches :: "FilePatch list"

record Changes =
  Changes_Patch :: "error + Patch option"

text \<open>The tree of the analysed commit, with the result of \<open>object.DiffTree(nil, tree)\<close>.\<close>

record Tree =
  DiffTree_nil :: "error + Changes"

text \<open>The tree of the parent, with the result of \<open>parentTree.Patch(currentTree)\<close>.\<close>

record ParentTree =
  Patch_to_current :: "error + Patch option"

record ParentCommit =
  Parent_Tree :: "error + ParentTree"

record object_Commit =
  Commit_Hash :: string
  Commit_Message :: string
  Author_Name :: string
  Author_Email :: string
  Author_When :: string
  Commit_Stats :: "error + FileStat list"
  Commit_Tree :: "error + Tree"
  NumParents :: nat
  Parent_0 :: "error + ParentCommit"

record Reference =
  Reference_Hash :: string

record Repository =
  Head :: "error + Reference"
  CommitObject :: "string \<Rightarrow> error + object_Commit"

section \<open>Package git: the program's own types\<close>

record CommitInfo =
  Hash :: string
  Message :: string
  Author :: string
  Email :: string
  Date :: string

record ChangedFileStats =
  Path :: string
  FileType :: string
  LinesAdded :: go_int
  LinesDeleted :: go_int

record RepositoryInfo =
  URL :: string
  TempPath :: string
  LatestCommit :: CommitInfo
  ChangedFiles :: "ChangedFileStats list"
  TotalLinesAdded :: go_int
  TotalLinesDeleted :: go_int

section \<open>Library functions on strings and paths\<close>

text \<open>
  \<open>strings.Split(s, sep)\<close>: the pieces of \<open>s\<close> between the non-overlapping occurrences
  of \<open>sep\<close>, found left to right.  The program calls it with a one-byte separator; for the
  empty separator Go cuts after every character, which the first branch gives for ASCII text.
\<close>

function split_from :: "string \<Rightarrow> string \<Rightarrow> string \<Rightarrow> string list" where
  "split_from sep cur [] = [rev cur]"
| "split_from sep cur (c # cs) =
     (if sep \<noteq> [] \<and> prefix sep (c # cs)
      then rev cur # split_from sep [] (drop (length sep) (c # cs))
      else split_from sep (c # cur) cs)"
  by pat_completeness auto
termination
  by (relation "measure (\<lambda>(sep, cur, s). length s)") (auto simp: neq_Nil_conv)

definition Split :: "string \<Rightarrow> string \<Rightarrow> string list" where
  "Split s sep = (if sep = [] then map (\<lambda>c. [c]) s else split_from sep [] s)"

text \<open>
  \<open>filepath.Ext(path)\<close> on a system whose path separator is the slash: scanning from the
  end, the suffix that starts at the first dot met before any separator, or the empty string.
\<close>

fun ext_scan :: "string \<Rightarrow> string \<Rightarrow> string" where
  "ext_scan [] seen = []"
| "ext_scan (c # front) seen =
     (if c = CHR ''/'' then []
      else if c = CHR ''.'' then c # seen
      else ext_scan front (c # seen))"

definition Ext :: "string \<Rightarrow> string" where
  "Ext path = ext_scan (rev path) []"

text \<open>
  \<open>strings.ToLower(s)\<close>: a string of ASCII bytes has its letters \<open>A\<close> to \<open>Z\<close> lowered byte by
  byte; any other string is mapped through the Unicode tables, which are the parameter
  \<open>unicode_lower\<close>.
\<close>

definition lower_byte :: "char \<Rightarrow> char" where
  "lower_byte c =
     (if CHR ''A'' \<le> c \<and> c \<le> CHR ''Z'' then char_of (of_char c + (32::nat)) else c)"

definition ToLower :: "(string \<Rightarrow> string) \<Rightarrow> string \<Rightarrow> string" where
  "ToLower unicode_lower s =
     (if list_all (\<lambda>c. of_char c < (128::nat)) s then map lower_byte s else unicode_lower s)"

section \<open>Package git: AnalyzeLatestCommit\<close>

text \<open>Lines 94 to 110: the totals of the commit, zero when \<open>Stats()\<close> fails.\<close>

fun sum_FileStats :: "FileStat list \<Rightarrow> go_int \<times> go_int \<Rightarrow> go_int \<times> go_int" where
  "sum_FileStats [] totals = totals"
| "sum_FileStats (fileStat # rest) (totalAdded, totalDeleted) =
     sum_FileStats rest
       (wrap_int (totalAdded + Addition fileStat), wrap_int (totalDeleted + Deletion fileStat))"

definition commit_totals :: "object_Commit \<Rightarrow> go_int \<times> go_int" where
  "commit_totals latestCommit =
     (case Commit_Stats latestCommit of
        Inl err \<Rightarrow> (0, 0)
      | Inr commitStats \<Rightarrow> sum_FileStats commitStats (0, 0))"

text \<open>Lines 117 to 153: the patch of the commit against its parent or the empty tree.\<close>

definition commit_patch :: "object_Commit \<Rightarrow> Tree \<Rightarrow> error + Patch option" where
  "commit_patch latestCommit currentTree =
     (if NumParents latestCommit = 0 then
        (case DiffTree_nil currentTree of
           Inl errDiff \<Rightarrow> Inl (Errorf ''failed to diff initial commit tree'' errDiff)
         | Inr changes \<Rightarrow>
             (case Changes_Patch changes of
                Inl err \<Rightarrow> Inl (Errorf ''failed to get patch from changes (initial commit)'' err)
              | Inr patch \<Rightarrow> Inr patch))
      else
        (case Parent_0 latestCommit of
           Inl errParent \<Rightarrow>
             (case DiffTree_nil currentTree of
                Inl diffErr \<Rightarrow>
                  Inl (Errorf (''failed to diff current tree with empty (parent fetch failed: '' @
                              Error_text errParent @ '')'') diffErr)
              | Inr changes \<Rightarrow>
                  (case Changes_Patch changes of
                     Inl err \<Rightarrow>
                       Inl (Errorf ''failed to get patch from changes (fallback to empty tree)'' err)
                   | Inr patch \<Rightarrow> Inr patch))
         | Inr parentCommit \<Rightarrow>
             (case Parent_Tree parentCommit of
                Inl errParentTree \<Rightarrow> Inl (Errorf ''failed to get parent commit tree'' errParentTree)
              | Inr parentTree \<Rightarrow>
                  (case Patch_to_current parentTree of
                     Inl err \<Rightarrow>
                       Inl (Errorf ''failed to create patch between parent and current tree'' err)
                   | Inr patch \<Rightarrow> Inr patch))))"

text \<open>Lines 155 to 174: one record for each file patch whose path is not empty.\<close>

fun changed_files ::
  "(string \<Rightarrow> string) \<Rightarrow> FilePatch list \<Rightarrow> ChangedFileStats list \<Rightarrow> ChangedFileStats list"
where
  "changed_files ul [] changedFileStatsList = changedFileStatsList"
| "changed_files ul (filePatch # rest) changedFileStatsList =
     (let filePath =
            (case Files_to filePatch of
               Some toFile \<Rightarrow> toFile
             | None \<Rightarrow> (case Files_from filePatch of Some fromFile \<Rightarrow> fromFile | None \<Rightarrow> []))
      in if filePath = [] then changed_files ul rest changedFileStatsList
         else changed_files ul rest
                (changedFileStatsList @
                   [\<lparr>Path = filePath, FileType = ToLower ul (Ext filePath),
                     LinesAdded = 0, LinesDeleted = 0\<rparr>]))"

text \<open>
  The whole function.  \<open>PlainOpen\<close> is the library's view of the file system: what
  \<open>git.PlainOpen\<close> returns for a path.  Indexing the result of \<open>Split\<close> at 0 panics when the
  slice is empty.
\<close>

definition AnalyzeLatestCommit ::
  "(string \<Rightarrow> error + Repository) \<Rightarrow> (string \<Rightarrow> string) \<Rightarrow> string \<Rightarrow> error + RepositoryInfo"
where
  "AnalyzeLatestCommit PlainOpen ul repoPath =
     (case PlainOpen repoPath of
        Inl err \<Rightarrow> Inl (Errorf (''failed to open repository at '' @ repoPath) err)
      | Inr repo \<Rightarrow>
     (case Head repo of
        Inl err \<Rightarrow> Inl (Errorf ''failed to get HEAD reference'' err)
      | Inr headRef \<Rightarrow>
     (case CommitObject repo (Reference_Hash headRef) of
        Inl err \<Rightarrow> Inl (Errorf ''failed to get latest commit object'' err)
      | Inr latestCommit \<Rightarrow>
     (case Split (Commit_Message latestCommit) ''\<newline>'' of
        [] \<Rightarrow> Inl (Panic ''index out of range [0] with length 0'')
      | firstLine # _ \<Rightarrow>
     (let commitInfo =
            \<lparr>Hash = Commit_Hash latestCommit, Message = firstLine,
             Author = Author_Name latestCommit, Email = Author_Email latestCommit,
             Date = Author_When latestCommit\<rparr>;
          (totalAdded, totalDeleted) = commit_totals latestCommit;
          repoInfo =
            \<lparr>URL = [], TempPath = repoPath, LatestCommit = commitInfo, ChangedFiles = [],
             TotalLinesAdded = totalAdded, TotalLinesDeleted = totalDeleted\<rparr>
      in case Commit_Tree latestCommit of
           Inl err \<Rightarrow> Inl (Errorf ''failed to get commit tree'' err)
         | Inr currentTree \<Rightarrow>
             (case commit_patch latestCommit currentTree of
                Inl err \<Rightarrow> Inl err
              | Inr None \<Rightarrow> Inr repoInfo
              | Inr (Some patch) \<Rightarrow>
                  Inr (repoInfo\<lparr>ChangedFiles := changed_files ul (FilePatches patch) []\<rparr>)))))))"

text \<open>The path the specification describes for one changed entry.\<close>

definition resolved_path :: "FilePatch \<Rightarrow> string" where
  "resolved_path filePatch =
     (case Files_to filePatch of
        Some toFile \<Rightarrow> toFile
      | None \<Rightarrow> (case Files_from filePatch of Some fromFile \<Rightarrow> fromFile | None \<Rightarrow> []))"

section \<open>Package git: CloneRepository\<close>

text \<open>
  The file system is the set of paths that exist.  \<open>os.MkdirTemp\<close> and \<open>git.PlainClone\<close>
  are calls into the system and the library: \<open>MkdirTemp\<close> fails or returns the directory
  it created, \<open>PlainClone\<close> returns the paths it wrote below the directory (whether it
  fails or not) and its error.  \<open>os.RemoveAll\<close> removes a path and everything below it; the
  program discards its result.
\<close>

record CloneCalls =
  MkdirTemp :: "string \<Rightarrow> string \<Rightarrow> error + string"
  PlainClone :: "string \<Rightarrow> string \<Rightarrow> string list \<times> error option"

definition below :: "string \<Rightarrow> string \<Rightarrow> bool" where
  "below dir p = (p = dir \<or> prefix (dir @ ''/'') p)"

definition RemoveAll :: "string \<Rightarrow> string set \<Rightarrow> string set" where
  "RemoveAll p fs = {q \<in> fs. \<not> below p q}"

definition CloneRepository ::
  "CloneCalls \<Rightarrow> string set \<Rightarrow> string \<Rightarrow> (error + string) \<times> string set"
where
  "CloneRepository sys fs url =
     (case MkdirTemp sys [] ''zenwatch-clone-*'' of
        Inl err \<Rightarrow> (Inl (Errorf ''failed to create temp dir'' err), fs)
      | Inr tempDir \<Rightarrow>
          (let fs1 = insert tempDir fs;
               (written, err) = PlainClone sys tempDir url;
               fs2 = fs1 \<union> (\<lambda>f. tempDir @ ''/'' @ f) ` set written
           in case err of
                Some e \<Rightarrow>
                  (Inl (Errorf (''failed to clone repository '' @ url) e), RemoveAll tempDir fs2)
              | None \<Rightarrow> (Inr tempDir, fs2)))"

definition Cleanup :: "string \<Rightarrow> string set \<Rightarrow> string set" where
  "Cleanup repoPath fs = RemoveAll repoPath fs"

section \<open>Package metrics\<close>

record FileTypeStat =
  Extension :: string
  Count :: go_int

record ComplexityStat =
  Complexity :: go_int
  Package :: string
  FunctionName :: string
  File :: string
  Line :: go_int

text \<open>
  \<open>FileStats\<close> is a Go map from extension to a pointer; it is modelled by an association
  list (a map holds each key once) whose values are \<open>None\<close> for a nil pointer.
\<close>

record OverallStats =
  TotalLinesAdded :: go_int
  TotalLinesDeleted :: go_int
  FunctionsOverThreshold :: go_int
  AverageComplexity :: float64
  FileStats :: "(string \<times> FileTypeStat option) list"
  ComplexityStats :: "ComplexityStat list"

text \<open>
  Modelled from the spec: the StatsAggregator, which builds \<open>FileStats\<close> from the
  changed-file list, is not among the source files (only the declarations of package
  metrics are).  Following section 4.2 of the specification, it walks the list once; the
  first time an extension is seen it creates an entry with count zero, and it increments
  the entry's counter for every file.
\<close>

fun BuildFileStats ::
  "ChangedFileStats list \<Rightarrow> (string \<times> FileTypeStat option) list
     \<Rightarrow> (string \<times> FileTypeStat option) list"
where
  "BuildFileStats [] stats = stats"
| "BuildFileStats (file # rest) stats =
     (let ext = FileType file;
          stats1 = (case map_of stats ext of
                      None \<Rightarrow> AList.update ext (Some \<lparr>Extension = ext, Count = 0\<rparr>) stats
                    | Some _ \<Rightarrow> stats)
      in BuildFileStats rest
           (AList.map_entry ext (map_option (\<lambda>st. st\<lparr>Count := Count st + 1\<rparr>)) stats1))"

section \<open>Package report: the Markdown report\<close>

record ReportData =
  RepoURL :: string
  ReportDate :: string
  BadgeURL :: string
  Commit :: "CommitInfo option"
  Stats :: "OverallStats option"
  ComplexityThreshold :: go_int

text \<open>
  The report is rendered by \<open>html/template\<close>.  In the template every action stands in HTML
  text, so the engine sends the value of every action through its HTML escaper, which
  replaces seven bytes (NUL by the UTF-8 encoding of U+FFFD) and keeps every other byte.
\<close>

definition html_replacement :: "char \<Rightarrow> string" where
  "html_replacement c =
     (if c = CHR 0x00 then [CHR 0xEF, CHR 0xBF, CHR 0xBD]
      else if c = CHR 0x22 then ''&#34;''
      else if c = CHR ''&'' then ''&amp;''
      else if c = CHR 0x27 then ''&#39;''
      else if c = CHR ''+'' then ''&#43;''
      else if c = CHR ''<'' then ''&lt;''
      else if c = CHR ''>'' then ''&gt;''
      else [c])"

definition htmlEscaper :: "string \<Rightarrow> string" where
  "htmlEscaper s = concat (map html_replacement s)"

text \<open>The seven bytes that the escaper replaces.\<close>

definition html_special :: "char list" where
  "html_special = [CHR 0x00, CHR 0x22, CHR ''&'', CHR 0x27, CHR ''+'', CHR ''<'', CHR ''>'']"

text \<open>
  A text in which every ampersand starts one of the six character references that the
  escaper writes.
\<close>

definition html_entity_names :: "string list" where
  "html_entity_names = [''#34;'', ''amp;'', ''#39;'', ''#43;'', ''lt;'', ''gt;'']"

fun entities_only :: "string \<Rightarrow> bool" where
  "entities_only [] = True"
| "entities_only (c # cs) =
     ((c = CHR ''&'' \<longrightarrow> list_ex (\<lambda>e. prefix e cs) html_entity_names) \<and> entities_only cs)"

text \<open>
  The engine writes to the file as it goes: what a run produces is the text written so
  far and the error that stopped it, if any.
\<close>

type_synonym rendering = "string \<times> error option"

definition emit :: "string \<Rightarrow> rendering" where
  "emit t = (t, None)"

definition action :: "string \<Rightarrow> rendering" where
  "action v = emit (htmlEscaper v)"

definition seq :: "rendering \<Rightarrow> rendering \<Rightarrow> rendering" where
  "seq a b = (case snd a of Some err \<Rightarrow> a | None \<Rightarrow> (fst a @ fst b, snd b))"

fun seqs :: "rendering list \<Rightarrow> rendering" where
  "seqs [] = ([], None)"
| "seqs (x # xs) = seq x (seqs xs)"

text \<open>Reading a field through a pointer: a nil pointer stops the run with an error.\<close>

definition deref :: "'a option \<Rightarrow> string \<Rightarrow> ('a \<Rightarrow> rendering) \<Rightarrow> rendering" where
  "deref p field k = (case p of None \<Rightarrow> ([], Some (NilPointer field)) | Some x \<Rightarrow> k x)"

text \<open>\<open>range\<close> over a slice follows its order; over a map it follows the sorted keys.\<close>

definition range_slice :: "'a list \<Rightarrow> ('a \<Rightarrow> rendering) \<Rightarrow> rendering" where
  "range_slice xs body = seqs (map body xs)"

definition range_map :: "(string \<times> 'v) list \<Rightarrow> (string \<Rightarrow> 'v \<Rightarrow> rendering) \<Rightarrow> rendering" where
  "range_map m body = seqs (map (\<lambda>(k, v). body k v) (sort_key fst m))"

text \<open>
  The constant \<open>markdownTemplate\<close>, action by action, cut into the sections of the
  report: the header (template lines 15 to 19), the badge (20 to 22), the commit (22 to
  28), the code statistics (29 to 33), the file types (34 to 40) and the complexity
  analysis (41 to 55).  A marker \<open>-}}\<close> removes the white
  space that follows the action, and the engine rewrites the \<open><\<close> of the template text
  before the e-mail address, which opens no tag, to \<open>&lt;\<close>.
\<close>

definition complexity_row :: "ComplexityStat \<Rightarrow> rendering" where
  "complexity_row c =
     seqs [emit ''| '', action (show_int (Complexity c)),
           emit '' | '', action (FunctionName c),
           emit ''                     | '', action (File c),
           emit '':'', action (show_int (Line c)),
           emit '' | '', action (Package c),
           emit ''    |\<newline>'']"

text \<open>
  The row of the complexity table as the specification lists it: complexity, function
  name, file and line, package.
\<close>

definition complexity_row_text :: "ComplexityStat \<Rightarrow> string" where
  "complexity_row_text c =
     ''| '' @ show_int (Complexity c) @ '' | '' @ htmlEscaper (FunctionName c) @
     ''                     | '' @ htmlEscaper (File c) @ '':'' @ show_int (Line c) @
     '' | '' @ htmlEscaper (Package c) @ ''    |\<newline>''"

text \<open>
  A text is well escaped when every ampersand in it starts a character reference and
  it holds none of the bytes NUL, double quote, single quote, plus and less-than.
\<close>

definition well_escaped :: "string \<Rightarrow> bool" where
  "well_escaped s =
     (entities_only s \<and>
      (\<forall>ch \<in> set s. ch \<notin> set [CHR 0x00, CHR 0x22, CHR 0x27, CHR ''+'', CHR ''<'']))"

definition file_type_row :: "string \<Rightarrow> FileTypeStat option \<Rightarrow> rendering" where
  "file_type_row ext stat =
     seqs [emit ''| '', action ext,
           emit '' | '', deref stat ''*metrics.FileTypeStat.Count'' (\<lambda>s. action (show_int (Count s))),
           emit '' |\<newline>'']"

definition header_section :: "ReportData \<Rightarrow> rendering" where
  "header_section d =
     seqs [
       emit ''\<newline># ZenWatch Analysis Report\<newline>\<newline>**Repository:** '',
       action (RepoURL d),
       emit ''\<newline>**Analyzed At:** '',
       action (ReportDate d),
       emit ''\<newline>\<newline>'']"

definition badge_section :: "ReportData \<Rightarrow> rendering" where
  "badge_section d =
     (if BadgeURL d \<noteq> []
      then seqs [emit ''\<newline>![ZenWatch Stats]('', action (BadgeURL d), emit '')\<newline>'']
      else emit [])"

definition commit_section :: "ReportData \<Rightarrow> rendering" where
  "commit_section d =
     seqs [
       emit ''\<newline>\<newline>## Latest Commit Analyzed\<newline>- **Hash:** '',
       deref (Commit d) ''*git.CommitInfo.Hash'' (\<lambda>c. action (Hash c)),
       emit ''\<newline>- **Author:** '',
       deref (Commit d) ''*git.CommitInfo.Author'' (\<lambda>c. action (Author c)),
       emit '' &lt;'',
       deref (Commit d) ''*git.CommitInfo.Email'' (\<lambda>c. action (Email c)),
       emit ''>\<newline>- **Date:** '',
       deref (Commit d) ''*git.CommitInfo.Date'' (\<lambda>c. action (Date c)),
       emit ''\<newline>- **Message:** '',
       deref (Commit d) ''*git.CommitInfo.Message'' (\<lambda>c. action (Message c))]"

definition statistics_section :: "ReportData \<Rightarrow> rendering" where
  "statistics_section d =
     seqs [
       emit ''\<newline>\<newline>## Code Statistics\<newline>- **Total Lines Added:** '',
       deref (Stats d) ''*metrics.OverallStats.TotalLinesAdded''
         (\<lambda>st. action (show_int (OverallStats.TotalLinesAdded st))),
       emit ''\<newline>- **Total Lines Deleted:** '',
       deref (Stats d) ''*metrics.OverallStats.TotalLinesDeleted''
         (\<lambda>st. action (show_int (OverallStats.TotalLinesDeleted st))),
       emit ''\<newline>  *Note: Line counts are overall for the commit. Per-file line counts were not available with current git analysis settings.*'']"

definition file_type_section :: "ReportData \<Rightarrow> rendering" where
  "file_type_section d =
     seqs [
       emit ''\<newline>\<newline>### File Type Distribution\<newline>| Extension | Count |\<newline>|-----------|-------|\<newline>'',
       deref (Stats d) ''*metrics.OverallStats.FileStats''
         (\<lambda>st. range_map (FileStats st) file_type_row),
       emit ''\<newline>'']"

definition complexity_section :: "ReportData \<Rightarrow> rendering" where
  "complexity_section d =
     seqs [
       emit ''\<newline>## Cyclomatic Complexity Analysis (Threshold > '',
       action (show_int (ComplexityThreshold d)),
       emit '')\<newline>- **Average Complexity (of functions over threshold):** '',
       deref (Stats d) ''*metrics.OverallStats.AverageComplexity''
         (\<lambda>st. action (FormatFloat_f (AverageComplexity st) 2)),
       emit ''\<newline>- **Functions Over Threshold:** '',
       deref (Stats d) ''*metrics.OverallStats.FunctionsOverThreshold''
         (\<lambda>st. action (show_int (FunctionsOverThreshold st))),
       emit ''\<newline>\<newline>'',
       deref (Stats d) ''*metrics.OverallStats.FunctionsOverThreshold''
         (\<lambda>st. if 0 < FunctionsOverThreshold st
               then seqs [
                 emit ''### Functions Over Complexity Threshold\<newline>| Complexity | Function                               | File:Line        | Package        |\<newline>|------------|----------------------------------------|------------------|----------------|\<newline>'',
                 range_slice (ComplexityStats st) complexity_row,
                 emit ''\<newline>'']
               else seqs [
                 emit ''No functions found with cyclomatic complexity greater than '',
                 action (show_int (ComplexityThreshold d)),
                 emit ''.\<newline>'']),
       emit ''\<newline>'']"

definition Execute :: "ReportData \<Rightarrow> rendering" where
  "Execute d =
     seqs [header_section d, badge_section d, commit_section d, statistics_section d,
           file_type_section d, complexity_section d]"

text \<open>
  \<open>GenerateMarkdownReport\<close>.  \<open>filepath.Dir\<close>, \<open>os.MkdirAll\<close> and \<open>os.Create\<close> are calls into
  the library and the system; the constant template parses.  The result is the error
  returned and the content of the file at \<open>outputPath\<close>, if the call created it.
\<close>

record ReportCalls =
  filepath_Dir :: "string \<Rightarrow> string"
  MkdirAll :: "string \<Rightarrow> error option"
  Create :: "string \<Rightarrow> error option"

definition GenerateMarkdownReport ::
  "ReportCalls \<Rightarrow> ReportData \<Rightarrow> string \<Rightarrow> error option \<times> string option"
where
  "GenerateMarkdownReport sys data outputPath =
     (let outputDir = filepath_Dir sys outputPath
      in case MkdirAll sys outputDir of
           Some err \<Rightarrow>
             (Some (Errorf (''failed to create output directory '' @ outputDir) err), None)
         | None \<Rightarrow>
             (case Create sys outputPath of
                Some err \<Rightarrow>
                  (Some (Errorf (''failed to create report file '' @ outputPath) err), None)
              | None \<Rightarrow>
                  (case Execute data of
                     (written, Some err) \<Rightarrow>
                       (Some (Errorf ''failed to execute template'' err), Some written)
                   | (written, None) \<Rightarrow> (None, Some written))))"

section \<open>Package report: the badge URL\<close>

definition GenerateBadgeURL :: "go_int \<Rightarrow> float64 \<Rightarrow> string" where
  "GenerateBadgeURL totalChangedLines avgComplexity =
     (let label = ''ZenWatch'';
          message = ''changes '' @ show_int totalChangedLines @ '' | avg complx '' @
                    FormatFloat_f avgComplexity 1;
          color = ''blue'';
          safeMessage = ReplaceAll message '' '' ''%20'';
          safeMessage = ReplaceAll safeMessage ''|'' ''%7C''
      in ''https://img.shields.io/badge/'' @ label @ ''-'' @ safeMessage @ ''-'' @ color)"

text \<open>The encoding the specification describes: character by character.\<close>

definition percent_encode :: "string \<Rightarrow> string" where
  "percent_encode s =
     concat (map (\<lambda>c. if c = CHR '' '' then ''%20'' else if c = CHR ''|'' then ''%7C'' else [c]) s)"

section \<open>Sample inputs\<close>

text \<open>
  A shallow clone as the test of package git describes it: the parent of the head commit
  is missing, so \<open>Stats()\<close> and \<open>Parent(0)\<close> fail and the tree is compared with the empty
  tree.
\<close>

definition sample_commit :: object_Commit where
  "sample_commit =
     \<lparr>Commit_Hash = ''6ecf0ef2c2dffb796033e5a02219af86ec6584e5'',
      Commit_Message = ''add feature\<newline>\<newline>with a longer body\<newline>'',
      Author_Name = ''Max Cong'', Author_Email = ''max@git-extensions.com'',
      Author_When = ''2015-04-05 23:30:47 +0200 +0200'',
      Commit_Stats = Inl (LibraryError ''object not found''),
      Commit_Tree = Inr \<lparr>DiffTree_nil = Inr \<lparr>Changes_Patch = Inr (Some \<lparr>FilePatches =
        [\<lparr>Files_from = None, Files_to = Some ''.gitignore''\<rparr>,
         \<lparr>Files_from = Some ''old/example.go'', Files_to = Some ''go/example.GO''\<rparr>,
         \<lparr>Files_from = Some ''LICENSE'', Files_to = None\<rparr>,
         \<lparr>Files_from = None, Files_to = None\<rparr>]\<rparr>)\<rparr>\<rparr>,
      NumParents = 1,
      Parent_0 = Inl (LibraryError ''object not found'')\<rparr>"

definition sample_head :: Reference where
  "sample_head = \<lparr>Reference_Hash = ''6ecf0ef''\<rparr>"

definition sample_repo :: Repository where
  "sample_repo =
     \<lparr>Head = Inr sample_head,
      CommitObject = (\<lambda>h. if h = ''6ecf0ef'' then Inr sample_commit
                          else Inl (LibraryError ''object not found''))\<rparr>"

definition sample_PlainOpen :: "string \<Rightarrow> error + Repository" where
  "sample_PlainOpen p =
     (if p = ''/tmp/zenwatch-clone-1'' then Inr sample_repo
      else Inl (LibraryError ''repository does not exist''))"

definition sample_info :: RepositoryInfo where
  "sample_info =
     \<lparr>URL = [], TempPath = ''/tmp/zenwatch-clone-1'',
      LatestCommit =
        \<lparr>Hash = ''6ecf0ef2c2dffb796033e5a02219af86ec6584e5'', Message = ''add feature'',
         Author = ''Max Cong'', Email = ''max@git-extensions.com'',
         Date = ''2015-04-05 23:30:47 +0200 +0200''\<rparr>,
      ChangedFiles =
        [\<lparr>Path = ''.gitignore'', FileType = ''.gitignore'', LinesAdded = 0, LinesDeleted = 0\<rparr>,
         \<lparr>Path = ''go/example.GO'', FileType = ''.go'', LinesAdded = 0, LinesDeleted = 0\<rparr>,
         \<lparr>Path = ''LICENSE'', FileType = [], LinesAdded = 0, LinesDeleted = 0\<rparr>],
      TotalLinesAdded = 0, TotalLinesDeleted = 0\<rparr>"

text \<open>A clone that fails after the temporary directory was made and partly filled.\<close>

definition sample_CloneCalls :: CloneCalls where
  "sample_CloneCalls =
     \<lparr>MkdirTemp = (\<lambda>dir pattern. Inr ''/tmp/zenwatch-clone-7''),
      PlainClone = (\<lambda>path url. ([''.git'', ''.git/config''],
                                 Some (LibraryError ''repository not found'')))\<rparr>"

text \<open>The report data of the program's own rendering test, with and without the badge.\<close>

definition sample_CommitInfo :: CommitInfo where
  "sample_CommitInfo =
     \<lparr>Hash = ''a1b2c3d4e5f6'', Message = ''feat: implement amazing new features'',
      Author = ''Jules Verne'', Email = ''jules@example.com'',
      Date = ''Wed, 04 Jun 2025 04:50:44 UTC''\<rparr>"

definition sample_OverallStats :: OverallStats where
  "sample_OverallStats =
     \<lparr>TotalLinesAdded = 150, TotalLinesDeleted = 30, FunctionsOverThreshold = 2,
      AverageComplexity = Finite False 9 1,
      FileStats = [(''.md'', Some \<lparr>Extension = ''.md'', Count = 2\<rparr>),
                   (''.go'', Some \<lparr>Extension = ''.go'', Count = 5\<rparr>)],
      ComplexityStats =
        [\<lparr>Complexity = 20, Package = ''main'', FunctionName = ''complexFunc'',
          File = ''main.go'', Line = 42\<rparr>,
         \<lparr>Complexity = 16, Package = ''helper'', FunctionName = ''anotherComplex'',
          File = ''utils/helper.go'', Line = 101\<rparr>]\<rparr>"

definition sample_ReportData :: ReportData where
  "sample_ReportData =
     \<lparr>RepoURL = ''https://github.com/user/testrepo'',
      ReportDate = ''2025-06-04 04:50:44 UTC'',
      BadgeURL = GenerateBadgeURL 180 (Finite False 9 1),
      Commit = Some sample_CommitInfo,
      Stats = Some sample_OverallStats,
      ComplexityThreshold = 15\<rparr>"

definition sample_ReportData_no_badge :: ReportData where
  "sample_ReportData_no_badge = sample_ReportData\<lparr>BadgeURL := []\<rparr>"

text \<open>The same report with a badge URL that carries a query string.\<close>

definition sample_ReportData_query :: ReportData where
  "sample_ReportData_query =
     sample_ReportData\<lparr>BadgeURL := ''https://img.shields.io/badge/ZenWatch-ok-blue?style=flat&logo=go''\<rparr>"

text \<open>The same report with no function over the threshold.\<close>

definition sample_ReportData_quiet :: ReportData where
  "sample_ReportData_quiet =
     sample_ReportData\<lparr>Stats := Some (sample_OverallStats\<lparr>FunctionsOverThreshold := 0,
        AverageComplexity := Finite False 0 0, ComplexityStats := []\<rparr>)\<rparr>"

text \<open>The same report for a commit whose author and message carry markup.\<close>

definition sample_ReportData_markup :: ReportData where
  "sample_ReportData_markup =
     sample_ReportData\<lparr>
       RepoURL := ''https://example.com/repo?a=1&b=2'',
       Commit := Some (sample_CommitInfo\<lparr>Author := ''Jules <b>Verne</b>'',
                         Message := [CHR ''a'', CHR 0x27, CHR 0x22, CHR ''>'', CHR ''b'']\<rparr>)\<rparr>"

definition sample_ReportCalls :: ReportCalls where
  "sample_ReportCalls =
     \<lparr>filepath_Dir = (\<lambda>path. ''.''), MkdirAll = (\<lambda>dir. None), Create = (\<lambda>path. None)\<rparr>"

section \<open>Facts about the printing functions\<close>

lemma replace_from_single:
  "replace_from [x] new s = concat (map (\<lambda>c. if c = x then new else [c]) s)"
  by (induction s) auto

lemma ReplaceAll_single:
  "ReplaceAll s [x] new = concat (map (\<lambda>c. if c = x then new else [c]) s)"
  by (simp add: ReplaceAll_def replace_from_single)

lemma ReplaceAll_twice_percent_encode:
  "ReplaceAll (ReplaceAll s '' '' ''%20'') ''|'' ''%7C'' = percent_encode s"
  by (induction s) (simp_all add: ReplaceAll_single percent_encode_def)

section \<open>The badge URL\<close>

text \<open>
  Claim C1.  For every integer \<open>n\<close> and every float \<open>a\<close>, the URL is the fixed prefix with
  the label, the message \<open>changes n | avg complx a\<close> (with \<open>a\<close> printed to one decimal) in
  which each space has become \<open>%20\<close> and each pipe \<open>%7C\<close>, and the fixed colour \<open>blue\<close>; and
  at 150 and 18.0 the message segment is \<open>changes%20150%20%7C%20avg%20complx%2018.0\<close>.
\<close>

theorem GenerateBadgeURL_message:
  "GenerateBadgeURL n a =
     ''https://img.shields.io/badge/ZenWatch-'' @
     percent_encode (''changes '' @ show_int n @ '' | avg complx '' @ FormatFloat_f a 1) @
     ''-blue''
   \<and> GenerateBadgeURL 150 (Finite False 9 1) =
     ''https://img.shields.io/badge/ZenWatch-'' @
     ''changes%20150%20%7C%20avg%20complx%2018.0'' @ ''-blue''"
proof
  show "GenerateBadgeURL n a =
     ''https://img.shields.io/badge/ZenWatch-'' @
     percent_encode (''changes '' @ show_int n @ '' | avg complx '' @ FormatFloat_f a 1) @
     ''-blue''"
    unfolding GenerateBadgeURL_def Let_def
    by (simp only: ReplaceAll_twice_percent_encode append_assoc append_Cons append_Nil)
next
  show "GenerateBadgeURL 150 (Finite False 9 1) =
     ''https://img.shields.io/badge/ZenWatch-'' @
     ''changes%20150%20%7C%20avg%20complx%2018.0'' @ ''-blue''"
    by code_simp
qed

section \<open>Facts about AnalyzeLatestCommit\<close>

lemma changed_files_acc:
  "changed_files ul ps acc =
     acc @ map (\<lambda>p. \<lparr>Path = p, FileType = ToLower ul (Ext p), LinesAdded = 0, LinesDeleted = 0\<rparr>)
             (filter (\<lambda>p. p \<noteq> []) (map resolved_path ps))"
  by (induction ps arbitrary: acc) (simp_all add: resolved_path_def Let_def)

lemma split_from_hd:
  "split_from [x] cur s \<noteq> [] \<and>
   hd (split_from [x] cur s) = rev cur @ takeWhile (\<lambda>c. c \<noteq> x) s"
  by (induction s arbitrary: cur) auto

lemma Split_newline:
  "\<exists>rest. Split s ''\<newline>'' = takeWhile (\<lambda>c. c \<noteq> CHR ''\<newline>'') s # rest"
  using split_from_hd [of "CHR ''\<newline>''" "[]" s]
  by (cases "split_from ''\<newline>'' [] s") (simp_all add: Split_def)

lemma sample_opens:
  "sample_PlainOpen ''/tmp/zenwatch-clone-1'' = Inr sample_repo"
  "Head sample_repo = Inr sample_head"
  "CommitObject sample_repo (Reference_Hash sample_head) = Inr sample_commit"
  by (simp_all add: sample_PlainOpen_def sample_repo_def sample_head_def)

lemma sample_analysis:
  "AnalyzeLatestCommit sample_PlainOpen id ''/tmp/zenwatch-clone-1'' = Inr sample_info"
  by code_simp

text \<open>
  Claim C2.  Whenever \<open>AnalyzeLatestCommit\<close> succeeds, every entry of \<open>ChangedFiles\<close> has
  \<open>LinesAdded\<close> 0 and \<open>LinesDeleted\<close> 0.
\<close>

theorem AnalyzeLatestCommit_per_file_lines_zero:
  assumes "AnalyzeLatestCommit PlainOpen ul repoPath = Inr info"
  shows "\<forall>f \<in> set (ChangedFiles info). LinesAdded f = 0 \<and> LinesDeleted f = 0"
  using assms
  by (auto simp: AnalyzeLatestCommit_def Let_def changed_files_acc
           split: sum.splits option.splits prod.splits list.splits)

theorem AnalyzeLatestCommit_per_file_lines_zero_witness:
  "AnalyzeLatestCommit sample_PlainOpen id ''/tmp/zenwatch-clone-1'' = Inr sample_info
   \<and> hd (ChangedFiles sample_info) \<in> set (ChangedFiles sample_info)
   \<and> LinesAdded (hd (ChangedFiles sample_info)) = 0
   \<and> LinesDeleted (hd (ChangedFiles sample_info)) = 0"
proof -
  have mem: "hd (ChangedFiles sample_info) \<in> set (ChangedFiles sample_info)"
    by (simp add: sample_info_def)
  from AnalyzeLatestCommit_per_file_lines_zero [where PlainOpen = sample_PlainOpen
      and repoPath = "''/tmp/zenwatch-clone-1''" and ul = id, OF sample_analysis]
    mem
  have "LinesAdded (hd (ChangedFiles sample_info)) = 0
        \<and> LinesDeleted (hd (ChangedFiles sample_info)) = 0"
    by blast
  with sample_analysis mem show ?thesis by blast
qed

text \<open>
  Claim C3.  When the commit is loaded and its \<open>Stats()\<close> fails, that failure is not
  reported: a result has both totals 0, the call succeeds exactly when the tree and the
  patch are obtained, and it returns what it returns when \<open>Stats()\<close> succeeds with no
  entries.
\<close>

theorem AnalyzeLatestCommit_stats_soft_fail:
  assumes "PlainOpen repoPath = Inr repo" "Head repo = Inr headRef"
    "CommitObject repo (Reference_Hash headRef) = Inr latestCommit"
    "Commit_Stats latestCommit = Inl e"
  shows "(\<forall>info. AnalyzeLatestCommit PlainOpen ul repoPath = Inr info \<longrightarrow>
            RepositoryInfo.TotalLinesAdded info = 0 \<and> RepositoryInfo.TotalLinesDeleted info = 0)
       \<and> ((\<exists>info. AnalyzeLatestCommit PlainOpen ul repoPath = Inr info) \<longleftrightarrow>
            (\<exists>currentTree patch. Commit_Tree latestCommit = Inr currentTree \<and>
                commit_patch latestCommit currentTree = Inr patch))
       \<and> AnalyzeLatestCommit PlainOpen ul repoPath =
           AnalyzeLatestCommit
             (PlainOpen(repoPath := Inr (repo\<lparr>CommitObject := (CommitObject repo)
                (Reference_Hash headRef := Inr (latestCommit\<lparr>Commit_Stats := Inr []\<rparr>))\<rparr>)))
             ul repoPath"
proof -
  obtain rest where sp: "Split (Commit_Message latestCommit) ''\<newline>'' =
      takeWhile (\<lambda>c. c \<noteq> CHR ''\<newline>'') (Commit_Message latestCommit) # rest"
    using Split_newline by blast
  have tot: "commit_totals latestCommit = (0, 0)"
    using assms(4) by (simp add: commit_totals_def)
  have tot': "commit_totals (latestCommit\<lparr>Commit_Stats := Inr []\<rparr>) = (0, 0)"
    by (simp add: commit_totals_def)
  have cp: "commit_patch (latestCommit\<lparr>Commit_Stats := Inr []\<rparr>) = commit_patch latestCommit"
    by (rule ext) (simp add: commit_patch_def)
  show ?thesis
    using assms(1-3) sp tot tot' cp
    by (auto simp: AnalyzeLatestCommit_def Let_def split: sum.splits option.splits)
qed

theorem AnalyzeLatestCommit_stats_soft_fail_witness:
  "Commit_Stats sample_commit = Inl (LibraryError ''object not found'')
   \<and> AnalyzeLatestCommit sample_PlainOpen id ''/tmp/zenwatch-clone-1'' = Inr sample_info
   \<and> RepositoryInfo.TotalLinesAdded sample_info = 0
   \<and> RepositoryInfo.TotalLinesDeleted sample_info = 0"
proof -
  have st: "Commit_Stats sample_commit = Inl (LibraryError ''object not found'')"
    by (simp add: sample_commit_def)
  from AnalyzeLatestCommit_stats_soft_fail [where PlainOpen = sample_PlainOpen
      and repoPath = "''/tmp/zenwatch-clone-1''" and ul = id, OF sample_opens st]
    sample_analysis
  have "RepositoryInfo.TotalLinesAdded sample_info = 0
        \<and> RepositoryInfo.TotalLinesDeleted sample_info = 0"
    by blast
  with st sample_analysis show ?thesis by blast
qed

text \<open>
  Claim C4.  For the commit that \<open>AnalyzeLatestCommit\<close> loads, the message of the returned
  \<open>CommitInfo\<close> is the part of the commit's message before its first line break, the whole
  message when it has none; taking the first piece of the split never panics.
\<close>

theorem AnalyzeLatestCommit_message_first_line:
  assumes "PlainOpen repoPath = Inr repo" "Head repo = Inr headRef"
    "CommitObject repo (Reference_Hash headRef) = Inr latestCommit"
  shows "(\<forall>info. AnalyzeLatestCommit PlainOpen ul repoPath = Inr info \<longrightarrow>
           Message (LatestCommit info) =
             takeWhile (\<lambda>c. c \<noteq> CHR ''\<newline>'') (Commit_Message latestCommit))
         \<and> (\<forall>s. AnalyzeLatestCommit PlainOpen ul repoPath \<noteq> Inl (Panic s))"
proof -
  obtain rest where sp: "Split (Commit_Message latestCommit) ''\<newline>'' =
      takeWhile (\<lambda>c. c \<noteq> CHR ''\<newline>'') (Commit_Message latestCommit) # rest"
    using Split_newline by blast
  show ?thesis
    using assms sp
    by (auto simp: AnalyzeLatestCommit_def Let_def commit_patch_def
             split: sum.splits option.splits prod.splits if_splits)
qed

theorem AnalyzeLatestCommit_message_first_line_witness:
  "AnalyzeLatestCommit sample_PlainOpen id ''/tmp/zenwatch-clone-1'' = Inr sample_info
   \<and> Commit_Message sample_commit = ''add feature\<newline>\<newline>with a longer body\<newline>''
   \<and> Message (LatestCommit sample_info) = ''add feature''"
proof -
  from AnalyzeLatestCommit_message_first_line [where PlainOpen = sample_PlainOpen
      and repoPath = "''/tmp/zenwatch-clone-1''" and ul = id, OF sample_opens]
    sample_analysis
  have "Message (LatestCommit sample_info) =
          takeWhile (\<lambda>c. c \<noteq> CHR ''\<newline>'') (Commit_Message sample_commit)"
    by blast
  then have "Message (LatestCommit sample_info) = ''add feature''"
    by (simp add: sample_commit_def)
  with sample_analysis show ?thesis by (simp add: sample_commit_def)
qed

text \<open>
  Claim C5.  Every entry of \<open>ChangedFiles\<close> has a non-empty path, and the paths are, in
  the order of the patch, the resolved paths of its entries (the file after the change if
  there is one, else the file before it) that are not empty: an entry with neither is
  skipped.
\<close>

theorem AnalyzeLatestCommit_paths_resolved:
  assumes "PlainOpen repoPath = Inr repo" "Head repo = Inr headRef"
    "CommitObject repo (Reference_Hash headRef) = Inr latestCommit"
    "Commit_Tree latestCommit = Inr currentTree"
    "AnalyzeLatestCommit PlainOpen ul repoPath = Inr info"
  shows "(\<forall>f \<in> set (ChangedFiles info). Path f \<noteq> [])
       \<and> (\<exists>patch. commit_patch latestCommit currentTree = Inr patch \<and>
            map Path (ChangedFiles info) =
              filter (\<lambda>p. p \<noteq> [])
                (map resolved_path (case patch of None \<Rightarrow> [] | Some p \<Rightarrow> FilePatches p)))"
  using assms
  by (auto simp: AnalyzeLatestCommit_def Let_def changed_files_acc comp_def
           split: sum.splits option.splits prod.splits list.splits)

theorem AnalyzeLatestCommit_paths_resolved_witness:
  "AnalyzeLatestCommit sample_PlainOpen id ''/tmp/zenwatch-clone-1'' = Inr sample_info
   \<and> hd (ChangedFiles sample_info) \<in> set (ChangedFiles sample_info)
   \<and> Path (hd (ChangedFiles sample_info)) \<noteq> []
   \<and> map Path (ChangedFiles sample_info) = [''.gitignore'', ''go/example.GO'', ''LICENSE'']"
proof -
  have tr: "Commit_Tree sample_commit = Inr (projr (Commit_Tree sample_commit))"
    by (simp add: sample_commit_def)
  have mem: "hd (ChangedFiles sample_info) \<in> set (ChangedFiles sample_info)"
    by (simp add: sample_info_def)
  from AnalyzeLatestCommit_paths_resolved [where PlainOpen = sample_PlainOpen
      and repoPath = "''/tmp/zenwatch-clone-1''" and ul = id, OF sample_opens tr sample_analysis]
    mem
  have "Path (hd (ChangedFiles sample_info)) \<noteq> []"
    by blast
  with sample_analysis mem show ?thesis by (simp add: sample_info_def)
qed

section \<open>Facts about CloneRepository\<close>

lemma below_self: "below dir dir" by (simp add: below_def)
lemma below_child: "below dir (dir @ ''/'' @ f)" by (simp add: below_def)

lemma RemoveAll_created:
  "RemoveAll dir (insert dir fs \<union> (\<lambda>f. dir @ ''/'' @ f) ` W) = RemoveAll dir fs"
  unfolding RemoveAll_def using below_self below_child by blast

text \<open>
  Claim C9.  When the temporary directory was created and the clone fails,
  \<open>CloneRepository\<close> returns the error and leaves no path at or below the temporary
  directory: the file system holds what it held before, without anything below that
  directory.
\<close>

theorem CloneRepository_failure_removes_tempDir:
  assumes "MkdirTemp sys [] ''zenwatch-clone-*'' = Inr tempDir"
    and "PlainClone sys tempDir url = (written, Some e)"
  shows "fst (CloneRepository sys fs url) = Inl (Errorf (''failed to clone repository '' @ url) e)
       \<and> (\<forall>p \<in> snd (CloneRepository sys fs url). \<not> below tempDir p)
       \<and> snd (CloneRepository sys fs url) = {p \<in> fs. \<not> below tempDir p}"
proof -
  have "CloneRepository sys fs url =
      (Inl (Errorf (''failed to clone repository '' @ url) e),
       RemoveAll tempDir (insert tempDir fs \<union> (\<lambda>f. tempDir @ ''/'' @ f) ` set written))"
    using assms by (simp add: CloneRepository_def)
  then have eq: "CloneRepository sys fs url =
      (Inl (Errorf (''failed to clone repository '' @ url) e), RemoveAll tempDir fs)"
    by (simp only: RemoveAll_created)
  show ?thesis
    unfolding eq fst_conv snd_conv by (simp add: RemoveAll_def)
qed

theorem CloneRepository_failure_removes_tempDir_witness:
  "fst (CloneRepository sample_CloneCalls {''/tmp'', ''/tmp/zenwatch-clone-3''} ''https://example.invalid/x.git'')
     = Inl (Errorf ''failed to clone repository https://example.invalid/x.git'' (LibraryError ''repository not found''))
   \<and> ''/tmp'' \<in> snd (CloneRepository sample_CloneCalls {''/tmp'', ''/tmp/zenwatch-clone-3''} ''https://example.invalid/x.git'')
   \<and> \<not> below ''/tmp/zenwatch-clone-7'' ''/tmp''
   \<and> ''/tmp/zenwatch-clone-7'' \<notin> snd (CloneRepository sample_CloneCalls {''/tmp'', ''/tmp/zenwatch-clone-3''} ''https://example.invalid/x.git'')"
proof -
  have a: "MkdirTemp sample_CloneCalls [] ''zenwatch-clone-*'' = Inr ''/tmp/zenwatch-clone-7''"
    by (simp add: sample_CloneCalls_def)
  have b: "PlainClone sample_CloneCalls ''/tmp/zenwatch-clone-7'' ''https://example.invalid/x.git''
      = ([''.git'', ''.git/config''], Some (LibraryError ''repository not found''))"
    by (simp add: sample_CloneCalls_def)
  have d: "\<not> below ''/tmp/zenwatch-clone-7'' ''/tmp''" by (simp add: below_def)
  have e: "below ''/tmp/zenwatch-clone-7'' ''/tmp/zenwatch-clone-7''" by (simp add: below_def)
  note t = CloneRepository_failure_removes_tempDir [OF a b, of "{''/tmp'', ''/tmp/zenwatch-clone-3''}"]
  from t have t3: "snd (CloneRepository sample_CloneCalls {''/tmp'', ''/tmp/zenwatch-clone-3''} ''https://example.invalid/x.git'')
      = {p \<in> {''/tmp'', ''/tmp/zenwatch-clone-3''}. \<not> below ''/tmp/zenwatch-clone-7'' p}"
    by (rule conjunct2 [THEN conjunct2])
  have m: "''/tmp'' \<in> snd (CloneRepository sample_CloneCalls {''/tmp'', ''/tmp/zenwatch-clone-3''} ''https://example.invalid/x.git'')"
    unfolding t3 using d by simp
  have n: "''/tmp/zenwatch-clone-7'' \<notin> snd (CloneRepository sample_CloneCalls {''/tmp'', ''/tmp/zenwatch-clone-3''} ''https://example.invalid/x.git'')"
    unfolding t3 using e by simp
  from t have f: "fst (CloneRepository sample_CloneCalls {''/tmp'', ''/tmp/zenwatch-clone-3''} ''https://example.invalid/x.git'')
     = Inl (Errorf (''failed to clone repository '' @ ''https://example.invalid/x.git'') (LibraryError ''repository not found''))"
    by (rule conjunct1)
  have g: "''failed to clone repository '' @ ''https://example.invalid/x.git''
      = ''failed to clone repository https://example.invalid/x.git''" by simp
  show ?thesis using f [unfolded g] m d n by (intro conjI)
qed

section \<open>Facts about the extension histogram\<close>

lemma BuildFileStats_lookup:
  "map_of (BuildFileStats files stats) ext =
     (let n = int (length (filter (\<lambda>f. FileType f = ext) files))
      in case map_of stats ext of
           None \<Rightarrow> if n = 0 then None else Some (Some \<lparr>Extension = ext, Count = n\<rparr>)
         | Some v \<Rightarrow> Some (map_option (\<lambda>st. st\<lparr>Count := Count st + n\<rparr>) v))"
proof (induction files arbitrary: stats)
  case Nil
  show ?case by (simp add: option.map_ident split: option.splits) 
next
  case (Cons f files)
  show ?case
    by (cases "map_of stats (FileType f)"; cases "map_of stats ext")
       (auto simp: Cons.IH Let_def update_conv' map_of_map_entry option.map_comp comp_def add.assoc
             split: option.splits)
qed

text \<open>
  Claim C8.  Starting from the empty map, the histogram built in one pass over the
  changed-file list holds, for every extension that occurs, an entry whose count is the
  number of files with that extension, and no other entry; for the files \<open>a.go\<close>,
  \<open>b.go\<close> and \<open>README\<close>, as \<open>AnalyzeLatestCommit\<close> records them, it holds \<open>.go\<close> with
  count 2 and the empty extension with count 1.
\<close>

theorem BuildFileStats_histogram:
  "map_of (BuildFileStats files []) ext =
     (if ext \<in> FileType ` set files
      then Some (Some \<lparr>Extension = ext,
                       Count = int (length (filter (\<lambda>f. FileType f = ext) files))\<rparr>)
      else None)
   \<and> BuildFileStats
       (changed_files ul
          [\<lparr>Files_from = None, Files_to = Some ''a.go''\<rparr>,
           \<lparr>Files_from = None, Files_to = Some ''b.go''\<rparr>,
           \<lparr>Files_from = None, Files_to = Some ''README''\<rparr>] []) []
     = [(''.go'', Some \<lparr>Extension = ''.go'', Count = 2\<rparr>),
        ([], Some \<lparr>Extension = [], Count = 1\<rparr>)]"
proof
  have "(ext \<in> FileType ` set files) \<longleftrightarrow> filter (\<lambda>f. FileType f = ext) files \<noteq> []"
    by (auto simp: filter_empty_conv)
  then show "map_of (BuildFileStats files []) ext =
     (if ext \<in> FileType ` set files
      then Some (Some \<lparr>Extension = ext,
                       Count = int (length (filter (\<lambda>f. FileType f = ext) files))\<rparr>)
      else None)"
    by (simp add: BuildFileStats_lookup)
next
  show "BuildFileStats
       (changed_files ul
          [\<lparr>Files_from = None, Files_to = Some ''a.go''\<rparr>,
           \<lparr>Files_from = None, Files_to = Some ''b.go''\<rparr>,
           \<lparr>Files_from = None, Files_to = Some ''README''\<rparr>] []) []
     = [(''.go'', Some \<lparr>Extension = ''.go'', Count = 2\<rparr>),
        ([], Some \<lparr>Extension = [], Count = 1\<rparr>)]"
    by code_simp
qed

section \<open>Facts about the Markdown report\<close>

lemma seq_emit: "seq (emit t) r = (t @ fst r, snd r)"
  by (simp add: seq_def emit_def)

lemma emit_Nil: "emit [] = ([], None)"
  by (simp add: emit_def)

lemma seq_action: "seq (action v) r = (htmlEscaper v @ fst r, snd r)"
  by (simp add: action_def seq_emit)

lemma seq_ok: "snd a = None \<Longrightarrow> seq a r = (fst a @ fst r, snd r)"
  by (simp add: seq_def)

lemma seq_failed: "snd a = Some e \<Longrightarrow> seq a r = a"
  by (simp add: seq_def)

lemma snd_seqs_None: "snd (seqs rs) = None \<longleftrightarrow> (\<forall>r \<in> set rs. snd r = None)"
  by (induction rs) (auto simp: seq_def split: option.splits)

lemma fst_seqs_ok: "\<forall>r \<in> set rs. snd r = None \<Longrightarrow> fst (seqs rs) = concat (map fst rs)"
  by (induction rs) (auto simp: seq_def split: option.splits)

lemma deref_Some: "deref (Some x) field k = k x"
  by (simp add: deref_def)

lemma header_section_text:
  "header_section d =
     (''\<newline># ZenWatch Analysis Report\<newline>\<newline>**Repository:** '' @ htmlEscaper (RepoURL d) @
      ''\<newline>**Analyzed At:** '' @ htmlEscaper (ReportDate d) @ ''\<newline>\<newline>'', None)"
  by (simp add: header_section_def seq_emit seq_action)

lemma badge_section_text:
  "badge_section d =
     (if BadgeURL d = [] then []
      else ''\<newline>![ZenWatch Stats]('' @ htmlEscaper (BadgeURL d) @ '')\<newline>'', None)"
  by (simp add: badge_section_def seq_emit seq_action emit_Nil)

lemma commit_section_start:
  "\<exists>rest. fst (commit_section d) = ''\<newline>\<newline>## Latest Commit Analyzed\<newline>- **Hash:** '' @ rest"
  by (simp add: commit_section_def seq_emit)

lemma commit_section_text:
  "Commit d = Some c \<Longrightarrow> commit_section d =
     (''\<newline>\<newline>## Latest Commit Analyzed\<newline>- **Hash:** '' @ htmlEscaper (Hash c) @
      ''\<newline>- **Author:** '' @ htmlEscaper (Author c) @ '' &lt;'' @ htmlEscaper (Email c) @
      ''>\<newline>- **Date:** '' @ htmlEscaper (Date c) @
      ''\<newline>- **Message:** '' @ htmlEscaper (Message c), None)"
  by (simp add: commit_section_def seq_emit seq_action deref_Some)

lemma Execute_start:
  "\<exists>rest. fst (Execute d) = fst (header_section d) @ fst (badge_section d) @
      ''\<newline>\<newline>## Latest Commit Analyzed\<newline>- **Hash:** '' @ rest"
proof -
  obtain r0 where r0: "fst (commit_section d) =
      ''\<newline>\<newline>## Latest Commit Analyzed\<newline>- **Hash:** '' @ r0"
    using commit_section_start by blast
  have "fst (Execute d) = fst (header_section d) @ fst (badge_section d) @
      fst (seq (commit_section d) (seqs [statistics_section d, file_type_section d, complexity_section d]))"
    by (simp add: Execute_def header_section_text badge_section_text seq_ok)
  moreover have "\<exists>rest. fst (seq (commit_section d) R) =
      ''\<newline>\<newline>## Latest Commit Analyzed\<newline>- **Hash:** '' @ rest" for R
    using r0 by (cases "snd (commit_section d)") (simp_all add: seq_def)
  ultimately show ?thesis by metis
qed

lemma GenerateMarkdownReport_written:
  "GenerateMarkdownReport sys d outputPath = (err, Some written) \<Longrightarrow>
     written = fst (Execute d) \<and> (err = None \<longleftrightarrow> snd (Execute d) = None)"
  by (auto simp: GenerateMarkdownReport_def Let_def split: option.splits prod.splits)


lemma html_replacement_id: "c \<notin> set html_special \<Longrightarrow> html_replacement c = [c]"
  by (simp add: html_special_def html_replacement_def)

lemma htmlEscaper_id: "\<forall>c \<in> set s. c \<notin> set html_special \<Longrightarrow> htmlEscaper s = s"
  by (induction s) (simp_all add: htmlEscaper_def html_replacement_id)

text \<open>
  Claim C6, as amended.  In every report file that \<open>GenerateMarkdownReport\<close> writes, the
  header is followed by the badge line exactly when \<open>BadgeURL\<close> is not empty, and
  otherwise directly by the commit block; the line holds the badge URL as the HTML escaper
  leaves it, which is the URL itself when it has none of the seven bytes the escaper
  replaces.
\<close>

theorem GenerateMarkdownReport_badge_line:
  assumes "GenerateMarkdownReport sys d outputPath = (err, Some written)"
  shows "(\<exists>rest. written =
            ''\<newline># ZenWatch Analysis Report\<newline>\<newline>**Repository:** '' @ htmlEscaper (RepoURL d) @
            ''\<newline>**Analyzed At:** '' @ htmlEscaper (ReportDate d) @ ''\<newline>\<newline>'' @
            (if BadgeURL d = [] then []
             else ''\<newline>![ZenWatch Stats]('' @ htmlEscaper (BadgeURL d) @ '')\<newline>'') @
            ''\<newline>\<newline>## Latest Commit Analyzed\<newline>- **Hash:** '' @ rest)
       \<and> ((\<forall>c \<in> set (BadgeURL d). c \<notin> set html_special) \<longrightarrow>
            htmlEscaper (BadgeURL d) = BadgeURL d)"
proof -
  have w: "written = fst (Execute d)"
    using assms GenerateMarkdownReport_written by blast
  obtain rest where "fst (Execute d) = fst (header_section d) @ fst (badge_section d) @
      ''\<newline>\<newline>## Latest Commit Analyzed\<newline>- **Hash:** '' @ rest"
    using Execute_start by blast
  then have "written =
            ''\<newline># ZenWatch Analysis Report\<newline>\<newline>**Repository:** '' @ htmlEscaper (RepoURL d) @
            ''\<newline>**Analyzed At:** '' @ htmlEscaper (ReportDate d) @ ''\<newline>\<newline>'' @
            (if BadgeURL d = [] then []
             else ''\<newline>![ZenWatch Stats]('' @ htmlEscaper (BadgeURL d) @ '')\<newline>'') @
            ''\<newline>\<newline>## Latest Commit Analyzed\<newline>- **Hash:** '' @ rest"
    unfolding w by (simp add: header_section_text badge_section_text)
  then show ?thesis
    using htmlEscaper_id by blast
qed

lemma digit_char_plain: "digit_char n \<in> set ''0123456789''"
proof -
  have "n mod 10 < length ''0123456789''" by simp
  then show ?thesis unfolding digit_char_def by (rule nth_mem)
qed

lemma digit_char_not_special: "digit_char n \<notin> set html_special"
  using digit_char_plain [of n] by (auto simp: html_special_def)

lemma show_nat_subset:
  assumes "\<And>k. digit_char k \<in> S"
  shows "set (show_nat n) \<subseteq> S"
proof (induction n rule: show_nat.induct)
  case (1 n)
  show ?case
  proof (cases "n < 10")
    case True
    then show ?thesis by (subst show_nat.simps) (simp add: assms)
  next
    case False
    then show ?thesis
      using "1.IH" by (subst show_nat.simps) (simp add: assms)
  qed
qed

lemma show_int_subset:
  assumes "\<And>k. digit_char k \<in> S" and "CHR ''-'' \<in> S"
  shows "set (show_int i) \<subseteq> S"
  using show_nat_subset [of S, OF assms(1)] assms(2) by (simp add: show_int_def)

lemma show_int_not_special: "c \<in> set (show_int i) \<Longrightarrow> c \<notin> set html_special"
proof -
  have "set (show_int i) \<subseteq> {c. c \<notin> set html_special}"
    by (rule show_int_subset) (simp_all add: digit_char_not_special, simp add: html_special_def)
  then show "c \<in> set (show_int i) \<Longrightarrow> c \<notin> set html_special" by blast
qed

lemma htmlEscaper_show_int: "htmlEscaper (show_int i) = show_int i"
  by (rule htmlEscaper_id) (simp add: show_int_not_special)

lemma show_int_0: "show_int 0 = ''0''"
  by (simp add: show_int_def show_nat.simps digit_char_def)

lemma seq_pair: "seq (t, None) r = (t @ fst r, snd r)"
  by (simp add: seq_def)

lemma seq_fail_pair: "seq (t, Some e) r = (t, Some e)"
  by (simp add: seq_def)

lemma statistics_section_text:
  "Stats d = Some st \<Longrightarrow> statistics_section d =
     (''\<newline>\<newline>## Code Statistics\<newline>- **Total Lines Added:** '' @
      show_int (OverallStats.TotalLinesAdded st) @
      ''\<newline>- **Total Lines Deleted:** '' @ show_int (OverallStats.TotalLinesDeleted st) @
      ''\<newline>  *Note: Line counts are overall for the commit. Per-file line counts were not available with current git analysis settings.*'',
      None)"
  by (simp add: statistics_section_def seq_emit seq_action deref_Some htmlEscaper_show_int)

lemma complexity_row_eq: "complexity_row c = (complexity_row_text c, None)"
  by (simp add: complexity_row_def complexity_row_text_def seq_emit seq_action
        htmlEscaper_show_int)

lemma range_slice_rows:
  "range_slice cs complexity_row = (concat (map complexity_row_text cs), None)"
  by (induction cs) (simp_all add: range_slice_def complexity_row_eq seq_pair)

lemma complexity_section_text:
  "Stats d = Some st \<Longrightarrow> complexity_section d =
     (''\<newline>## Cyclomatic Complexity Analysis (Threshold > '' @ show_int (ComplexityThreshold d) @
      '')\<newline>- **Average Complexity (of functions over threshold):** '' @
      htmlEscaper (FormatFloat_f (AverageComplexity st) 2) @
      ''\<newline>- **Functions Over Threshold:** '' @ show_int (FunctionsOverThreshold st) @
      ''\<newline>\<newline>'' @
      (if 0 < FunctionsOverThreshold st
       then ''### Functions Over Complexity Threshold\<newline>| Complexity | Function                               | File:Line        | Package        |\<newline>|------------|----------------------------------------|------------------|----------------|\<newline>'' @
            concat (map complexity_row_text (ComplexityStats st)) @ ''\<newline>''
       else ''No functions found with cyclomatic complexity greater than '' @
            show_int (ComplexityThreshold d) @ ''.\<newline>'') @
      ''\<newline>'', None)"
  by (simp add: complexity_section_def seq_emit seq_action deref_Some htmlEscaper_show_int
        range_slice_rows seq_pair)

lemma commit_section_ok: "snd (commit_section d) = None \<Longrightarrow> \<exists>c. Commit d = Some c"
  by (cases "Commit d") (simp_all add: commit_section_def seq_emit deref_def seq_fail_pair)

lemma statistics_section_ok: "snd (statistics_section d) = None \<Longrightarrow> \<exists>st. Stats d = Some st"
  by (cases "Stats d") (simp_all add: statistics_section_def seq_emit deref_def seq_fail_pair)

lemma Execute_sections:
  assumes "snd (Execute d) = None"
  shows "fst (Execute d) =
           fst (header_section d) @ fst (badge_section d) @ fst (commit_section d) @
           fst (statistics_section d) @ fst (file_type_section d) @ fst (complexity_section d)"
    and "snd (commit_section d) = None" and "snd (statistics_section d) = None"
    and "snd (file_type_section d) = None"
proof -
  have ok: "\<forall>r \<in> set [header_section d, badge_section d, commit_section d,
      statistics_section d, file_type_section d, complexity_section d]. snd r = None"
    using assms unfolding Execute_def by (simp only: snd_seqs_None)
  show "fst (Execute d) =
           fst (header_section d) @ fst (badge_section d) @ fst (commit_section d) @
           fst (statistics_section d) @ fst (file_type_section d) @ fst (complexity_section d)"
    unfolding Execute_def using fst_seqs_ok [OF ok] by simp
  show "snd (commit_section d) = None" "snd (statistics_section d) = None"
    "snd (file_type_section d) = None"
    using ok by simp_all
qed

lemma entities_only_append:
  "entities_only x \<Longrightarrow> entities_only y \<Longrightarrow> entities_only (x @ y)"
proof (induction x)
  case Nil
  then show ?case by simp
next
  case (Cons c cs)
  have "list_ex (\<lambda>e. prefix e cs) html_entity_names \<Longrightarrow>
        list_ex (\<lambda>e. prefix e (cs @ y)) html_entity_names"
    unfolding list_ex_iff by (meson prefix_order.trans prefixI)
  with Cons show ?case by simp
qed

lemma well_escaped_Nil: "well_escaped []"
  by (simp add: well_escaped_def)

lemma well_escaped_append:
  "well_escaped x \<Longrightarrow> well_escaped y \<Longrightarrow> well_escaped (x @ y)"
  unfolding well_escaped_def using entities_only_append by auto

lemma well_escaped_replacement: "well_escaped (html_replacement c)"
  by (simp add: html_replacement_def well_escaped_def html_entity_names_def)

lemma well_escaped_htmlEscaper: "well_escaped (htmlEscaper s)"
  by (induction s)
     (simp_all add: htmlEscaper_def well_escaped_Nil well_escaped_append well_escaped_replacement)

lemma we_emit: "well_escaped t \<Longrightarrow> well_escaped (fst (emit t))"
  by (simp add: emit_def)

lemma we_action: "well_escaped (fst (action v))"
  by (simp add: action_def emit_def well_escaped_htmlEscaper)

lemma we_seq:
  "well_escaped (fst a) \<Longrightarrow> well_escaped (fst b) \<Longrightarrow> well_escaped (fst (seq a b))"
  by (cases "snd a") (simp_all add: seq_def well_escaped_append)

lemma we_seqs_Nil: "well_escaped (fst (seqs []))"
  by (simp add: well_escaped_Nil)

lemma we_seqs_Cons:
  "well_escaped (fst x) \<Longrightarrow> well_escaped (fst (seqs xs)) \<Longrightarrow> well_escaped (fst (seqs (x # xs)))"
  by (simp add: we_seq)

lemma we_seqs_all: "(\<And>r. r \<in> set rs \<Longrightarrow> well_escaped (fst r)) \<Longrightarrow> well_escaped (fst (seqs rs))"
  by (induction rs) (simp_all add: well_escaped_Nil we_seq)

lemma we_deref: "(\<And>x. well_escaped (fst (k x))) \<Longrightarrow> well_escaped (fst (deref p field k))"
  by (cases p) (simp_all add: deref_def well_escaped_Nil)

lemma we_range_slice:
  "(\<And>x. well_escaped (fst (body x))) \<Longrightarrow> well_escaped (fst (range_slice xs body))"
  unfolding range_slice_def by (rule we_seqs_all) auto

lemma we_range_map:
  "(\<And>k v. well_escaped (fst (body k v))) \<Longrightarrow> well_escaped (fst (range_map m body))"
  unfolding range_map_def by (rule we_seqs_all) auto

lemma we_if:
  "well_escaped (fst a) \<Longrightarrow> well_escaped (fst b) \<Longrightarrow> well_escaped (fst (if c then a else b))"
  by simp

lemmas we_intros = we_emit we_action we_seqs_Nil we_seqs_Cons we_deref we_if

lemma we_header: "well_escaped (fst (header_section d))"
  unfolding header_section_def
  by (intro we_intros) (simp_all add: well_escaped_def)

lemma we_badge: "well_escaped (fst (badge_section d))"
  unfolding badge_section_def
  by (intro we_intros) (simp_all add: well_escaped_def)

lemma we_commit: "well_escaped (fst (commit_section d))"
  unfolding commit_section_def
  by (intro we_intros) (simp_all add: well_escaped_def html_entity_names_def)

lemma we_statistics: "well_escaped (fst (statistics_section d))"
  unfolding statistics_section_def
  by (intro we_intros) (simp_all add: well_escaped_def)

lemma we_file_type_row: "well_escaped (fst (file_type_row ext stat))"
  unfolding file_type_row_def
  by (intro we_intros) (simp_all add: well_escaped_def)

lemma we_complexity_row: "well_escaped (fst (complexity_row c))"
  unfolding complexity_row_def
  by (intro we_intros) (simp_all add: well_escaped_def)

lemma we_file_type: "well_escaped (fst (file_type_section d))"
  unfolding file_type_section_def
  by (intro we_intros we_range_map we_file_type_row) (simp_all add: well_escaped_def)

lemma we_complexity: "well_escaped (fst (complexity_section d))"
  unfolding complexity_section_def
  by (intro we_intros we_range_slice we_complexity_row) (simp_all add: well_escaped_def)

lemma Execute_well_escaped: "well_escaped (fst (Execute d))"
  unfolding Execute_def
  by (intro we_seqs_Cons we_seqs_Nil we_header we_badge we_commit we_statistics we_file_type
        we_complexity)

lemma sublist_concat_member: "x \<in> set xs \<Longrightarrow> sublist x (concat xs)"
proof -
  assume "x \<in> set xs"
  then obtain as bs where "xs = as @ x # bs" by (meson split_list)
  then have "concat xs = concat as @ x @ concat bs" by simp
  then show ?thesis by (metis sublist_appendI)
qed

lemma sublist_in_left: "sublist x a \<Longrightarrow> sublist x (a @ b)"
  by (metis sublist_order.order_trans sublist_append_rightI)

lemma sublist_in_right: "sublist x b \<Longrightarrow> sublist x (a @ b)"
  by (metis sublist_order.order_trans sublist_append_leftI)

lemma file_type_row_start:
  "\<exists>rest. fst (file_type_row ext stat) = ''| '' @ htmlEscaper ext @ '' | '' @ rest"
  by (simp add: file_type_row_def seq_emit seq_action)

lemma file_type_row_ok:
  "snd (file_type_row ext (Some s)) = None"
  by (simp add: file_type_row_def seq_emit seq_action deref_Some)

lemma file_type_section_rows:
  assumes "Stats d = Some st" "snd (file_type_section d) = None" "(ext, stat) \<in> set (FileStats st)"
  shows "sublist (''| '' @ htmlEscaper ext @ '' | '') (fst (file_type_section d))"
proof -
  let ?rows = "map (\<lambda>(k, v). file_type_row k v) (sort_key fst (FileStats st))"
  have sec: "file_type_section d =
      seq (emit ''\<newline>\<newline>### File Type Distribution\<newline>| Extension | Count |\<newline>|-----------|-------|\<newline>'')
        (seq (seqs ?rows) (seq (emit ''\<newline>'') ([], None)))"
    using assms(1) by (simp add: file_type_section_def deref_Some range_map_def)
  have ok: "snd (seqs ?rows) = None"
    using assms(2) unfolding sec seq_emit by (simp add: seq_def split: option.splits)
  then have all_ok: "\<forall>r \<in> set ?rows. snd r = None"
    by (simp only: snd_seqs_None)
  have whole: "fst (file_type_section d) =
      ''\<newline>\<newline>### File Type Distribution\<newline>| Extension | Count |\<newline>|-----------|-------|\<newline>'' @
      concat (map fst ?rows) @ ''\<newline>''"
    unfolding sec using ok fst_seqs_ok [OF all_ok] by (simp add: seq_emit seq_ok)
  have "(ext, stat) \<in> set (sort_key fst (FileStats st))"
    using assms(3) by simp
  then have "fst (file_type_row ext stat) \<in> set (map fst ?rows)"
    by force
  then have "sublist (fst (file_type_row ext stat)) (concat (map fst ?rows))"
    by (rule sublist_concat_member)
  moreover obtain rest where
    "fst (file_type_row ext stat) = ''| '' @ htmlEscaper ext @ '' | '' @ rest"
    using file_type_row_start by blast
  then have "sublist (''| '' @ htmlEscaper ext @ '' | '') (fst (file_type_row ext stat))"
    by (metis append.assoc sublist_append_rightI)
  ultimately have "sublist (''| '' @ htmlEscaper ext @ '' | '') (concat (map fst ?rows))"
    using sublist_order.order_trans by blast
  then show ?thesis
    unfolding whole by (intro sublist_in_right sublist_in_left)
qed

lemma complexity_row_name:
  "sublist ('' | '' @ htmlEscaper (FunctionName c) @ ''                     | '')
     (complexity_row_text c)"
proof -
  have "complexity_row_text c =
      (''| '' @ show_int (Complexity c)) @
      ('' | '' @ htmlEscaper (FunctionName c) @ ''                     | '') @
      (htmlEscaper (File c) @ '':'' @ show_int (Line c) @ '' | '' @ htmlEscaper (Package c) @
       ''    |\<newline>'')"
    by (simp add: complexity_row_text_def)
  then show ?thesis by (metis sublist_appendI)
qed

lemma file_type_section_ok:
  assumes "Stats d = Some st" "\<forall>(k, v) \<in> set (FileStats st). v \<noteq> None"
  shows "snd (file_type_section d) = None"
proof -
  let ?rows = "map (\<lambda>(k, v). file_type_row k v) (sort_key fst (FileStats st))"
  have "snd r = None" if "r \<in> set ?rows" for r
  proof -
    from that obtain k v where kv: "(k, v) \<in> set (FileStats st)" and r: "r = file_type_row k v"
      by auto
    from kv assms(2) obtain s where "v = Some s" by fastforce
    then show ?thesis using r file_type_row_ok by simp
  qed
  then have "snd (seqs ?rows) = None" by (simp only: snd_seqs_None) blast
  then show ?thesis
    using assms(1) by (simp add: file_type_section_def deref_Some range_map_def seq_emit seq_ok)
qed

lemma Execute_ok:
  assumes "Commit d = Some c" "Stats d = Some st" "\<forall>(k, v) \<in> set (FileStats st). v \<noteq> None"
  shows "snd (Execute d) = None"
  unfolding Execute_def snd_seqs_None
  using file_type_section_ok [OF assms(2,3)]
  by (simp add: header_section_text badge_section_text
          commit_section_text [OF assms(1)] statistics_section_text [OF assms(2)]
          complexity_section_text [OF assms(2)])

lemma GenerateMarkdownReport_run:
  assumes "MkdirAll sys (filepath_Dir sys outputPath) = None" "Create sys outputPath = None"
    "snd (Execute d) = None"
  shows "GenerateMarkdownReport sys d outputPath = (None, Some (fst (Execute d)))"
  using assms by (cases "Execute d") (simp add: GenerateMarkdownReport_def Let_def)

lemma Execute_commit:
  assumes "Commit d = Some c"
  shows "\<exists>rest. fst (Execute d) =
           fst (header_section d) @ fst (badge_section d) @ fst (commit_section d) @ rest"
proof -
  have "snd (commit_section d) = None"
    by (simp add: commit_section_text [OF assms])
  then show ?thesis
    by (simp add: Execute_def header_section_text badge_section_text seq_pair seq_ok)
qed

lemma htmlEscaper_no_raw:
  "ch \<in> set (htmlEscaper s) \<Longrightarrow> ch \<notin> set [CHR ''<'', CHR ''>'', CHR 0x27, CHR 0x22]"
proof -
  have one: "\<forall>x \<in> set (html_replacement c). x \<notin> set [CHR ''<'', CHR ''>'', CHR 0x27, CHR 0x22]"
    for c
    by (simp add: html_replacement_def)
  assume "ch \<in> set (htmlEscaper s)"
  then obtain c where "ch \<in> set (html_replacement c)"
    by (auto simp: htmlEscaper_def)
  with one show ?thesis by blast
qed

lemma entities_only_amp:
  "entities_only (xs @ CHR ''&'' # ys) \<Longrightarrow> list_ex (\<lambda>e. prefix e ys) html_entity_names"
  by (induction xs) simp_all

lemma header_repository:
  "sublist (''**Repository:** '' @ htmlEscaper (RepoURL d) @ ''\<newline>'') (fst (header_section d))"
proof -
  have "fst (header_section d) =
      ''\<newline># ZenWatch Analysis Report\<newline>\<newline>'' @
      (''**Repository:** '' @ htmlEscaper (RepoURL d) @ ''\<newline>'') @
      (''**Analyzed At:** '' @ htmlEscaper (ReportDate d) @ ''\<newline>\<newline>'')"
    by (simp add: header_section_text)
  then show ?thesis by (metis sublist_appendI)
qed

lemma badge_line:
  assumes "BadgeURL d \<noteq> []"
  shows "sublist (''![ZenWatch Stats]('' @ htmlEscaper (BadgeURL d) @ '')\<newline>'')
           (fst (badge_section d))"
proof -
  have "fst (badge_section d) =
      ''\<newline>'' @ (''![ZenWatch Stats]('' @ htmlEscaper (BadgeURL d) @ '')\<newline>'') @ []"
    using assms by (simp add: badge_section_text)
  then show ?thesis by (metis sublist_appendI)
qed

lemma commit_author_line:
  assumes "Commit d = Some c"
  shows "sublist (''- **Author:** '' @ htmlEscaper (Author c) @ '' &lt;'' @
                  htmlEscaper (Email c) @ ''>\<newline>'') (fst (commit_section d))"
proof -
  have "fst (commit_section d) =
      (''\<newline>\<newline>## Latest Commit Analyzed\<newline>- **Hash:** '' @ htmlEscaper (Hash c) @ ''\<newline>'') @
      (''- **Author:** '' @ htmlEscaper (Author c) @ '' &lt;'' @ htmlEscaper (Email c) @ ''>\<newline>'') @
      (''- **Date:** '' @ htmlEscaper (Date c) @ ''\<newline>- **Message:** '' @
       htmlEscaper (Message c))"
    by (simp add: commit_section_text [OF assms])
  then show ?thesis by (metis sublist_appendI)
qed

lemma commit_message_line:
  assumes "Commit d = Some c"
  shows "sublist (''- **Message:** '' @ htmlEscaper (Message c)) (fst (commit_section d))"
proof -
  have "fst (commit_section d) =
      (''\<newline>\<newline>## Latest Commit Analyzed\<newline>- **Hash:** '' @ htmlEscaper (Hash c) @
       ''\<newline>- **Author:** '' @ htmlEscaper (Author c) @ '' &lt;'' @ htmlEscaper (Email c) @
       ''>\<newline>- **Date:** '' @ htmlEscaper (Date c) @ ''\<newline>'') @
      (''- **Message:** '' @ htmlEscaper (Message c)) @ []"
    by (simp add: commit_section_text [OF assms])
  then show ?thesis by (metis sublist_appendI)
qed

lemma complexity_table_names:
  assumes "Stats d = Some st" "0 < FunctionsOverThreshold st" "cs \<in> set (ComplexityStats st)"
  shows "sublist ('' | '' @ htmlEscaper (FunctionName cs) @ ''                     | '')
           (fst (complexity_section d))"
proof -
  have "sublist (complexity_row_text cs) (concat (map complexity_row_text (ComplexityStats st)))"
    using assms(3) by (intro sublist_concat_member) simp
  then have a: "sublist ('' | '' @ htmlEscaper (FunctionName cs) @ ''                     | '')
      (concat (map complexity_row_text (ComplexityStats st)))"
    by (rule sublist_order.order_trans [OF complexity_row_name])
  have "fst (complexity_section d) =
      (''\<newline>## Cyclomatic Complexity Analysis (Threshold > '' @ show_int (ComplexityThreshold d) @
       '')\<newline>- **Average Complexity (of functions over threshold):** '' @
       htmlEscaper (FormatFloat_f (AverageComplexity st) 2) @
       ''\<newline>- **Functions Over Threshold:** '' @ show_int (FunctionsOverThreshold st) @
       ''\<newline>\<newline>### Functions Over Complexity Threshold\<newline>| Complexity | Function                               | File:Line        | Package        |\<newline>|------------|----------------------------------------|------------------|----------------|\<newline>'') @
      concat (map complexity_row_text (ComplexityStats st)) @ ''\<newline>\<newline>''"
    using assms(2) by (simp add: complexity_section_text [OF assms(1)])
  then have b: "sublist (concat (map complexity_row_text (ComplexityStats st)))
      (fst (complexity_section d))"
    by (simp only: sublist_appendI)
  show ?thesis
    by (rule sublist_order.order_trans [OF a b])
qed

text \<open>
  Claim C7.  A report that was written without error ends with the complexity
  section.  When \<open>FunctionsOverThreshold\<close> is 0, the count line is followed by the
  sentence \<open>No functions found with cyclomatic complexity greater than\<close> the threshold,
  and by nothing else, and the report does not depend on \<open>ComplexityStats\<close>; when it is
  greater than 0, the count line is followed by the table heading and one row for each
  \<open>ComplexityStat\<close>, in the order of the list, giving complexity, function name, file and
  line, and package.
\<close>

theorem GenerateMarkdownReport_complexity_section:
  assumes "GenerateMarkdownReport sys d outputPath = (None, Some written)"
  shows "\<exists>st. Stats d = Some st \<and>
     (FunctionsOverThreshold st = 0 \<longrightarrow>
        suffix (''\<newline>- **Functions Over Threshold:** 0\<newline>\<newline>No functions found with cyclomatic complexity greater than '' @
                show_int (ComplexityThreshold d) @ ''.\<newline>\<newline>'') written
        \<and> (\<forall>cs. Execute (d\<lparr>Stats := Some (st\<lparr>ComplexityStats := cs\<rparr>)\<rparr>) = Execute d))
   \<and> (0 < FunctionsOverThreshold st \<longrightarrow>
        suffix (''\<newline>- **Functions Over Threshold:** '' @ show_int (FunctionsOverThreshold st) @
                ''\<newline>\<newline>### Functions Over Complexity Threshold\<newline>| Complexity | Function                               | File:Line        | Package        |\<newline>|------------|----------------------------------------|------------------|----------------|\<newline>'' @
                concat (map complexity_row_text (ComplexityStats st)) @ ''\<newline>\<newline>'') written)"
proof -
  have w: "written = fst (Execute d)" and ok: "snd (Execute d) = None"
    using GenerateMarkdownReport_written [OF assms] by simp_all
  obtain st where st: "Stats d = Some st"
    using statistics_section_ok Execute_sections(3) [OF ok] by blast
  let ?before = "fst (header_section d) @ fst (badge_section d) @ fst (commit_section d) @
           fst (statistics_section d) @ fst (file_type_section d)"
  have whole: "written = ?before @ fst (complexity_section d)"
    unfolding w Execute_sections(1) [OF ok] by simp
  have zero: "suffix (''\<newline>- **Functions Over Threshold:** 0\<newline>\<newline>No functions found with cyclomatic complexity greater than '' @
                show_int (ComplexityThreshold d) @ ''.\<newline>\<newline>'') written"
    if "FunctionsOverThreshold st = 0"
  proof -
    have "fst (complexity_section d) =
        (''\<newline>## Cyclomatic Complexity Analysis (Threshold > '' @ show_int (ComplexityThreshold d) @
         '')\<newline>- **Average Complexity (of functions over threshold):** '' @
         htmlEscaper (FormatFloat_f (AverageComplexity st) 2)) @
        (''\<newline>- **Functions Over Threshold:** 0\<newline>\<newline>No functions found with cyclomatic complexity greater than '' @
                show_int (ComplexityThreshold d) @ ''.\<newline>\<newline>'')"
      (is "_ = ?head @ ?tail")
      using that by (simp add: complexity_section_text [OF st] show_int_0)
    then have "written = (?before @ ?head) @ ?tail"
      unfolding whole by (simp only: append_assoc)
    then show ?thesis by (rule suffixI)
  qed
  have same: "Execute (d\<lparr>Stats := Some (st\<lparr>ComplexityStats := cs\<rparr>)\<rparr>) = Execute d"
    if "FunctionsOverThreshold st = 0" for cs
    using that st
    by (simp add: Execute_def header_section_def badge_section_def commit_section_def
          statistics_section_def file_type_section_def complexity_section_def deref_Some)
  have table: "suffix (''\<newline>- **Functions Over Threshold:** '' @ show_int (FunctionsOverThreshold st) @
                ''\<newline>\<newline>### Functions Over Complexity Threshold\<newline>| Complexity | Function                               | File:Line        | Package        |\<newline>|------------|----------------------------------------|------------------|----------------|\<newline>'' @
                concat (map complexity_row_text (ComplexityStats st)) @ ''\<newline>\<newline>'') written"
    if "0 < FunctionsOverThreshold st"
  proof -
    have "fst (complexity_section d) =
        (''\<newline>## Cyclomatic Complexity Analysis (Threshold > '' @ show_int (ComplexityThreshold d) @
         '')\<newline>- **Average Complexity (of functions over threshold):** '' @
         htmlEscaper (FormatFloat_f (AverageComplexity st) 2)) @
        (''\<newline>- **Functions Over Threshold:** '' @ show_int (FunctionsOverThreshold st) @
                ''\<newline>\<newline>### Functions Over Complexity Threshold\<newline>| Complexity | Function                               | File:Line        | Package        |\<newline>|------------|----------------------------------------|------------------|----------------|\<newline>'' @
                concat (map complexity_row_text (ComplexityStats st)) @ ''\<newline>\<newline>'')"
      (is "_ = ?head @ ?tail")
      using that by (simp add: complexity_section_text [OF st])
    then have "written = (?before @ ?head) @ ?tail"
      unfolding whole by (simp only: append_assoc)
    then show ?thesis by (rule suffixI)
  qed
  show ?thesis
  proof (intro exI [of _ st] conjI impI allI)
    show "Stats d = Some st" by (rule st)
  next
    assume "FunctionsOverThreshold st = 0"
    then show "suffix (''\<newline>- **Functions Over Threshold:** 0\<newline>\<newline>No functions found with cyclomatic complexity greater than '' @
                show_int (ComplexityThreshold d) @ ''.\<newline>\<newline>'') written"
      by (rule zero)
  next
    fix cs assume "FunctionsOverThreshold st = 0"
    then show "Execute (d\<lparr>Stats := Some (st\<lparr>ComplexityStats := cs\<rparr>)\<rparr>) = Execute d"
      by (rule same)
  next
    assume "0 < FunctionsOverThreshold st"
    then show "suffix (''\<newline>- **Functions Over Threshold:** '' @ show_int (FunctionsOverThreshold st) @
                ''\<newline>\<newline>### Functions Over Complexity Threshold\<newline>| Complexity | Function                               | File:Line        | Package        |\<newline>|------------|----------------------------------------|------------------|----------------|\<newline>'' @
                concat (map complexity_row_text (ComplexityStats st)) @ ''\<newline>\<newline>'') written"
      by (rule table)
  qed
qed

lemma Execute_commit_lines:
  assumes "Commit d = Some c"
  shows "sublist (''- **Author:** '' @ htmlEscaper (Author c) @ '' &lt;'' @
                  htmlEscaper (Email c) @ ''>\<newline>'') (fst (Execute d))"
    and "sublist (''- **Message:** '' @ htmlEscaper (Message c)) (fst (Execute d))"
proof -
  obtain rest where "fst (Execute d) =
      fst (header_section d) @ fst (badge_section d) @ fst (commit_section d) @ rest"
    using Execute_commit [OF assms] by blast
  then have "fst (Execute d) =
      (fst (header_section d) @ fst (badge_section d)) @ fst (commit_section d) @ rest"
    by (simp only: append_assoc)
  then have sec: "sublist (fst (commit_section d)) (fst (Execute d))"
    by (simp only: sublist_appendI)
  show "sublist (''- **Author:** '' @ htmlEscaper (Author c) @ '' &lt;'' @
                  htmlEscaper (Email c) @ ''>\<newline>'') (fst (Execute d))"
    by (rule sublist_order.order_trans [OF commit_author_line [OF assms] sec])
  show "sublist (''- **Message:** '' @ htmlEscaper (Message c)) (fst (Execute d))"
    by (rule sublist_order.order_trans [OF commit_message_line [OF assms] sec])
qed

lemma Execute_field_lines:
  assumes "snd (Execute d) = None" "Stats d = Some st"
  shows "sublist (''**Repository:** '' @ htmlEscaper (RepoURL d) @ ''\<newline>'') (fst (Execute d))"
    and "BadgeURL d \<noteq> [] \<Longrightarrow>
         sublist (''![ZenWatch Stats]('' @ htmlEscaper (BadgeURL d) @ '')\<newline>'') (fst (Execute d))"
    and "(ext, stat) \<in> set (FileStats st) \<Longrightarrow>
         sublist (''| '' @ htmlEscaper ext @ '' | '') (fst (Execute d))"
    and "0 < FunctionsOverThreshold st \<Longrightarrow> cs \<in> set (ComplexityStats st) \<Longrightarrow>
         sublist ('' | '' @ htmlEscaper (FunctionName cs) @ ''                     | '')
           (fst (Execute d))"
proof -
  note whole = Execute_sections(1) [OF assms(1)]
  have h: "sublist (fst (header_section d)) (fst (Execute d))"
    unfolding whole by (rule sublist_append_rightI)
  have b: "sublist (fst (badge_section d)) (fst (Execute d))"
    unfolding whole by (rule sublist_appendI)
  have "fst (Execute d) =
      (fst (header_section d) @ fst (badge_section d) @ fst (commit_section d) @
       fst (statistics_section d)) @ fst (file_type_section d) @ fst (complexity_section d)"
    unfolding whole by (simp only: append_assoc)
  then have f: "sublist (fst (file_type_section d)) (fst (Execute d))"
    by (simp only: sublist_appendI)
  have "fst (Execute d) =
      (fst (header_section d) @ fst (badge_section d) @ fst (commit_section d) @
       fst (statistics_section d) @ fst (file_type_section d)) @ fst (complexity_section d)"
    unfolding whole by (simp only: append_assoc)
  then have x: "sublist (fst (complexity_section d)) (fst (Execute d))"
    by (simp only: sublist_append_leftI)
  show "sublist (''**Repository:** '' @ htmlEscaper (RepoURL d) @ ''\<newline>'') (fst (Execute d))"
    by (rule sublist_order.order_trans [OF header_repository h])
  show "sublist (''![ZenWatch Stats]('' @ htmlEscaper (BadgeURL d) @ '')\<newline>'') (fst (Execute d))"
    if "BadgeURL d \<noteq> []"
    by (rule sublist_order.order_trans [OF badge_line [OF that] b])
  show "sublist (''| '' @ htmlEscaper ext @ '' | '') (fst (Execute d))"
    if "(ext, stat) \<in> set (FileStats st)"
    by (rule sublist_order.order_trans
          [OF file_type_section_rows [OF assms(2) Execute_sections(4) [OF assms(1)] that] f])
  show "sublist ('' | '' @ htmlEscaper (FunctionName cs) @ ''                     | '')
           (fst (Execute d))"
    if "0 < FunctionsOverThreshold st" "cs \<in> set (ComplexityStats st)"
    by (rule sublist_order.order_trans [OF complexity_table_names [OF assms(2) that] x])
qed

text \<open>
  Claim C10.  Whatever the fields hold, a report file is well escaped: every ampersand in
  it starts a character reference, and it holds no raw less-than sign, quote or double
  quote.  The escaper leaves none of the characters \<open><\<close>, \<open>>\<close>, quote and double quote
  in a value and writes \<open>&lt;\<close>, \<open>&gt;\<close>, \<open>&amp;\<close>, \<open>&#39;\<close> and \<open>&#34;\<close> for the five
  characters.  The author line reads \<open>Author &lt;Email>\<close> with both values escaped, and
  the message, the repository URL, the badge URL, the file extensions and the function
  names stand escaped in the report.
\<close>

theorem GenerateMarkdownReport_html_escaped:
  assumes "GenerateMarkdownReport sys d outputPath = (err, Some written)"
  shows "well_escaped written
     \<and> (\<forall>s. \<forall>ch \<in> set (htmlEscaper s). ch \<notin> set [CHR ''<'', CHR ''>'', CHR 0x27, CHR 0x22])
     \<and> htmlEscaper [CHR ''<'', CHR ''>'', CHR ''&'', CHR 0x27, CHR 0x22] = ''&lt;&gt;&amp;&#39;&#34;''
     \<and> (\<forall>c. Commit d = Some c \<longrightarrow>
          sublist (''- **Author:** '' @ htmlEscaper (Author c) @ '' &lt;'' @
                   htmlEscaper (Email c) @ ''>\<newline>'') written
          \<and> sublist (''- **Message:** '' @ htmlEscaper (Message c)) written)
     \<and> (err = None \<longrightarrow>
          sublist (''**Repository:** '' @ htmlEscaper (RepoURL d) @ ''\<newline>'') written
          \<and> (BadgeURL d \<noteq> [] \<longrightarrow>
               sublist (''![ZenWatch Stats]('' @ htmlEscaper (BadgeURL d) @ '')\<newline>'') written)
          \<and> (\<exists>st. Stats d = Some st
               \<and> (\<forall>(ext, stat) \<in> set (FileStats st).
                     sublist (''| '' @ htmlEscaper ext @ '' | '') written)
               \<and> (0 < FunctionsOverThreshold st \<longrightarrow>
                     (\<forall>cs \<in> set (ComplexityStats st).
                        sublist ('' | '' @ htmlEscaper (FunctionName cs) @
                                 ''                     | '') written))))"
proof -
  have w: "written = fst (Execute d)" and ok: "err = None \<longleftrightarrow> snd (Execute d) = None"
    using GenerateMarkdownReport_written [OF assms] by simp_all
  have p1: "well_escaped written"
    unfolding w by (rule Execute_well_escaped)
  have p2: "\<forall>s. \<forall>ch \<in> set (htmlEscaper s). ch \<notin> set [CHR ''<'', CHR ''>'', CHR 0x27, CHR 0x22]"
    using htmlEscaper_no_raw by blast
  have p3: "htmlEscaper [CHR ''<'', CHR ''>'', CHR ''&'', CHR 0x27, CHR 0x22] = ''&lt;&gt;&amp;&#39;&#34;''"
    by (simp add: htmlEscaper_def html_replacement_def)
  have p4: "\<forall>c. Commit d = Some c \<longrightarrow>
          sublist (''- **Author:** '' @ htmlEscaper (Author c) @ '' &lt;'' @
                   htmlEscaper (Email c) @ ''>\<newline>'') written
          \<and> sublist (''- **Message:** '' @ htmlEscaper (Message c)) written"
    unfolding w using Execute_commit_lines by blast
  have p5: "err = None \<longrightarrow>
          sublist (''**Repository:** '' @ htmlEscaper (RepoURL d) @ ''\<newline>'') written
          \<and> (BadgeURL d \<noteq> [] \<longrightarrow>
               sublist (''![ZenWatch Stats]('' @ htmlEscaper (BadgeURL d) @ '')\<newline>'') written)
          \<and> (\<exists>st. Stats d = Some st
               \<and> (\<forall>(ext, stat) \<in> set (FileStats st).
                     sublist (''| '' @ htmlEscaper ext @ '' | '') written)
               \<and> (0 < FunctionsOverThreshold st \<longrightarrow>
                     (\<forall>cs \<in> set (ComplexityStats st).
                        sublist ('' | '' @ htmlEscaper (FunctionName cs) @
                                 ''                     | '') written)))"
  proof (rule impI)
    assume "err = None"
    with ok have r: "snd (Execute d) = None" by simp
    obtain st where st: "Stats d = Some st"
      using statistics_section_ok Execute_sections(3) [OF r] by blast
    note f = Execute_field_lines [OF r st]
    show "sublist (''**Repository:** '' @ htmlEscaper (RepoURL d) @ ''\<newline>'') written
          \<and> (BadgeURL d \<noteq> [] \<longrightarrow>
               sublist (''![ZenWatch Stats]('' @ htmlEscaper (BadgeURL d) @ '')\<newline>'') written)
          \<and> (\<exists>st. Stats d = Some st
               \<and> (\<forall>(ext, stat) \<in> set (FileStats st).
                     sublist (''| '' @ htmlEscaper ext @ '' | '') written)
               \<and> (0 < FunctionsOverThreshold st \<longrightarrow>
                     (\<forall>cs \<in> set (ComplexityStats st).
                        sublist ('' | '' @ htmlEscaper (FunctionName cs) @
                                 ''                     | '') written)))"
      unfolding w
    proof (intro conjI impI exI [of _ st] ballI)
      show "sublist (''**Repository:** '' @ htmlEscaper (RepoURL d) @ ''\<newline>'') (fst (Execute d))"
        by (rule f(1))
    next
      assume "BadgeURL d \<noteq> []"
      then show "sublist (''![ZenWatch Stats]('' @ htmlEscaper (BadgeURL d) @ '')\<newline>'')
          (fst (Execute d))"
        by (rule f(2))
    next
      show "Stats d = Some st" by (rule st)
    next
      fix x assume xin: "x \<in> set (FileStats st)"
      obtain ext stat where x: "x = (ext, stat)" by (cases x)
      from xin have "sublist (''| '' @ htmlEscaper ext @ '' | '') (fst (Execute d))"
        unfolding x by (rule f(3))
      then show "case x of (ext, stat) \<Rightarrow>
          sublist (''| '' @ htmlEscaper ext @ '' | '') (fst (Execute d))"
        unfolding x by (simp only: prod.case)
    next
      fix cs assume "0 < FunctionsOverThreshold st" "cs \<in> set (ComplexityStats st)"
      then show "sublist ('' | '' @ htmlEscaper (FunctionName cs) @ ''                     | '')
          (fst (Execute d))"
        by (rule f(4))
    qed
  qed
  show ?thesis
    by (rule conjI [OF p1 conjI [OF p2 conjI [OF p3 conjI [OF p4 p5]]]])
qed

lemma sample_ReportCalls_ok:
  "MkdirAll sample_ReportCalls (filepath_Dir sample_ReportCalls p) = None"
  "Create sample_ReportCalls p = None"
  by (simp_all add: sample_ReportCalls_def)

lemma sample_FileStats_ok: "\<forall>(k, v) \<in> set (FileStats sample_OverallStats). v \<noteq> None"
  by (simp add: sample_OverallStats_def)

lemma sample_runs:
  "GenerateMarkdownReport sample_ReportCalls sample_ReportData ''test_report.md'' =
     (None, Some (fst (Execute sample_ReportData)))"
  "GenerateMarkdownReport sample_ReportCalls sample_ReportData_no_badge ''test_report.md'' =
     (None, Some (fst (Execute sample_ReportData_no_badge)))"
  "GenerateMarkdownReport sample_ReportCalls sample_ReportData_query ''test_report.md'' =
     (None, Some (fst (Execute sample_ReportData_query)))"
  "GenerateMarkdownReport sample_ReportCalls sample_ReportData_quiet ''test_report.md'' =
     (None, Some (fst (Execute sample_ReportData_quiet)))"
  "GenerateMarkdownReport sample_ReportCalls sample_ReportData_markup ''test_report.md'' =
     (None, Some (fst (Execute sample_ReportData_markup)))"
proof -
  have a: "snd (Execute sample_ReportData) = None"
    by (rule Execute_ok [OF _ _ sample_FileStats_ok]) (simp_all add: sample_ReportData_def)
  have b: "snd (Execute sample_ReportData_no_badge) = None"
    by (rule Execute_ok [OF _ _ sample_FileStats_ok])
       (simp_all add: sample_ReportData_no_badge_def sample_ReportData_def)
  have c: "snd (Execute sample_ReportData_query) = None"
    by (rule Execute_ok [OF _ _ sample_FileStats_ok])
       (simp_all add: sample_ReportData_query_def sample_ReportData_def)
  have d: "snd (Execute sample_ReportData_quiet) = None"
    by (rule Execute_ok [where st = "sample_OverallStats\<lparr>FunctionsOverThreshold := 0,
        AverageComplexity := Finite False 0 0, ComplexityStats := []\<rparr>"])
       (simp_all add: sample_ReportData_quiet_def sample_ReportData_def sample_OverallStats_def)
  have e: "snd (Execute sample_ReportData_markup) = None"
    by (rule Execute_ok [OF _ _ sample_FileStats_ok])
       (simp_all add: sample_ReportData_markup_def sample_ReportData_def)
  show "GenerateMarkdownReport sample_ReportCalls sample_ReportData ''test_report.md'' =
     (None, Some (fst (Execute sample_ReportData)))"
    by (rule GenerateMarkdownReport_run [OF sample_ReportCalls_ok a])
  show "GenerateMarkdownReport sample_ReportCalls sample_ReportData_no_badge ''test_report.md'' =
     (None, Some (fst (Execute sample_ReportData_no_badge)))"
    by (rule GenerateMarkdownReport_run [OF sample_ReportCalls_ok b])
  show "GenerateMarkdownReport sample_ReportCalls sample_ReportData_query ''test_report.md'' =
     (None, Some (fst (Execute sample_ReportData_query)))"
    by (rule GenerateMarkdownReport_run [OF sample_ReportCalls_ok c])
  show "GenerateMarkdownReport sample_ReportCalls sample_ReportData_quiet ''test_report.md'' =
     (None, Some (fst (Execute sample_ReportData_quiet)))"
    by (rule GenerateMarkdownReport_run [OF sample_ReportCalls_ok d])
  show "GenerateMarkdownReport sample_ReportCalls sample_ReportData_markup ''test_report.md'' =
     (None, Some (fst (Execute sample_ReportData_markup)))"
    by (rule GenerateMarkdownReport_run [OF sample_ReportCalls_ok e])
qed

text \<open>
  The badge URL does not always appear as it is: a URL with a query string has its
  ampersand escaped, and the report does not contain the URL.
\<close>

theorem GenerateMarkdownReport_badge_verbatim_counterexample:
  "BadgeURL sample_ReportData_query \<noteq> []
   \<and> GenerateMarkdownReport sample_ReportCalls sample_ReportData_query ''test_report.md'' =
       (None, Some (fst (Execute sample_ReportData_query)))
   \<and> \<not> sublist (BadgeURL sample_ReportData_query) (fst (Execute sample_ReportData_query))"
proof -
  have u: "BadgeURL sample_ReportData_query =
      ''https://img.shields.io/badge/ZenWatch-ok-blue?style=flat'' @ CHR ''&'' # ''logo=go''"
    by (simp add: sample_ReportData_query_def)
  have "\<not> sublist (BadgeURL sample_ReportData_query) (fst (Execute sample_ReportData_query))"
  proof
    assume "sublist (BadgeURL sample_ReportData_query) (fst (Execute sample_ReportData_query))"
    then obtain ps ss where
      "fst (Execute sample_ReportData_query) = ps @ BadgeURL sample_ReportData_query @ ss"
      unfolding sublist_def by blast
    then have "fst (Execute sample_ReportData_query) =
        (ps @ ''https://img.shields.io/badge/ZenWatch-ok-blue?style=flat'') @
        CHR ''&'' # (''logo=go'' @ ss)"
      unfolding u by simp
    moreover have "entities_only (fst (Execute sample_ReportData_query))"
      using Execute_well_escaped [of sample_ReportData_query] by (simp only: well_escaped_def)
    ultimately have "entities_only
        ((ps @ ''https://img.shields.io/badge/ZenWatch-ok-blue?style=flat'') @
         CHR ''&'' # (''logo=go'' @ ss))"
      by (simp only:)
    then have "list_ex (\<lambda>e. prefix e (''logo=go'' @ ss)) html_entity_names"
      by (rule entities_only_amp)
    then show False by (simp add: html_entity_names_def)
  qed
  moreover have "BadgeURL sample_ReportData_query \<noteq> []" unfolding u by simp
  ultimately show ?thesis using sample_runs(3) by (intro conjI)
qed

lemma sample_badge: "BadgeURL sample_ReportData =
    ''https://img.shields.io/badge/ZenWatch-changes%20180%20%7C%20avg%20complx%2018.0-blue''"
proof -
  have "GenerateBadgeURL 180 (Finite False 9 1) =
    ''https://img.shields.io/badge/ZenWatch-changes%20180%20%7C%20avg%20complx%2018.0-blue''"
    by code_simp
  then show ?thesis by (simp add: sample_ReportData_def)
qed

lemma sample_badge_plain: "\<forall>c \<in> set (BadgeURL sample_ReportData). c \<notin> set html_special"
  unfolding sample_badge by (simp add: html_special_def)

lemma sample_header_plain:
  "htmlEscaper (RepoURL sample_ReportData) = ''https://github.com/user/testrepo''"
  "htmlEscaper (ReportDate sample_ReportData) = ''2025-06-04 04:50:44 UTC''"
  by (simp_all add: sample_ReportData_def htmlEscaper_def html_replacement_def)

theorem GenerateMarkdownReport_badge_line_witness:
  "GenerateMarkdownReport sample_ReportCalls sample_ReportData ''test_report.md'' =
     (None, Some (fst (Execute sample_ReportData)))
   \<and> htmlEscaper (BadgeURL sample_ReportData) = BadgeURL sample_ReportData
   \<and> (\<exists>rest. fst (Execute sample_ReportData) =
         ''\<newline># ZenWatch Analysis Report\<newline>\<newline>**Repository:** https://github.com/user/testrepo\<newline>**Analyzed At:** 2025-06-04 04:50:44 UTC\<newline>\<newline>\<newline>![ZenWatch Stats](https://img.shields.io/badge/ZenWatch-changes%20180%20%7C%20avg%20complx%2018.0-blue)\<newline>\<newline>\<newline>## Latest Commit Analyzed\<newline>- **Hash:** '' @ rest)
   \<and> GenerateMarkdownReport sample_ReportCalls sample_ReportData_no_badge ''test_report.md'' =
     (None, Some (fst (Execute sample_ReportData_no_badge)))
   \<and> (\<exists>rest. fst (Execute sample_ReportData_no_badge) =
         ''\<newline># ZenWatch Analysis Report\<newline>\<newline>**Repository:** https://github.com/user/testrepo\<newline>**Analyzed At:** 2025-06-04 04:50:44 UTC\<newline>\<newline>\<newline>\<newline>## Latest Commit Analyzed\<newline>- **Hash:** '' @ rest)"
proof -
  note t1 = GenerateMarkdownReport_badge_line [OF sample_runs(1)]
  note t2 = GenerateMarkdownReport_badge_line [OF sample_runs(2)]
  from t1 sample_badge_plain have esc: "htmlEscaper (BadgeURL sample_ReportData) = BadgeURL sample_ReportData"
    by blast
  have nb: "BadgeURL sample_ReportData_no_badge = []"
    "RepoURL sample_ReportData_no_badge = RepoURL sample_ReportData"
    "ReportDate sample_ReportData_no_badge = ReportDate sample_ReportData"
    by (simp_all add: sample_ReportData_no_badge_def)
  from t1 have "\<exists>rest. fst (Execute sample_ReportData) =
         ''\<newline># ZenWatch Analysis Report\<newline>\<newline>**Repository:** https://github.com/user/testrepo\<newline>**Analyzed At:** 2025-06-04 04:50:44 UTC\<newline>\<newline>\<newline>![ZenWatch Stats](https://img.shields.io/badge/ZenWatch-changes%20180%20%7C%20avg%20complx%2018.0-blue)\<newline>\<newline>\<newline>## Latest Commit Analyzed\<newline>- **Hash:** '' @ rest"
    unfolding esc sample_header_plain unfolding sample_badge by simp
  moreover from t2 have "\<exists>rest. fst (Execute sample_ReportData_no_badge) =
         ''\<newline># ZenWatch Analysis Report\<newline>\<newline>**Repository:** https://github.com/user/testrepo\<newline>**Analyzed At:** 2025-06-04 04:50:44 UTC\<newline>\<newline>\<newline>\<newline>## Latest Commit Analyzed\<newline>- **Hash:** '' @ rest"
    unfolding nb sample_header_plain by simp
  ultimately show ?thesis
    using sample_runs(1,2) esc by (intro conjI)
qed

lemma sample_rows:
  "concat (map complexity_row_text (ComplexityStats sample_OverallStats)) =
     ''| 20 | complexFunc                     | main.go:42 | main    |\<newline>| 16 | anotherComplex                     | utils/helper.go:101 | helper    |\<newline>''"
  by code_simp

lemma show_int_samples: "show_int 15 = ''15''" "show_int 2 = ''2''"
  by code_simp+

theorem GenerateMarkdownReport_complexity_section_witness:
  "GenerateMarkdownReport sample_ReportCalls sample_ReportData_quiet ''test_report.md'' =
     (None, Some (fst (Execute sample_ReportData_quiet)))
   \<and> suffix ''\<newline>- **Functions Over Threshold:** 0\<newline>\<newline>No functions found with cyclomatic complexity greater than 15.\<newline>\<newline>''
        (fst (Execute sample_ReportData_quiet))
   \<and> GenerateMarkdownReport sample_ReportCalls sample_ReportData ''test_report.md'' =
     (None, Some (fst (Execute sample_ReportData)))
   \<and> suffix ''\<newline>- **Functions Over Threshold:** 2\<newline>\<newline>### Functions Over Complexity Threshold\<newline>| Complexity | Function                               | File:Line        | Package        |\<newline>|------------|----------------------------------------|------------------|----------------|\<newline>| 20 | complexFunc                     | main.go:42 | main    |\<newline>| 16 | anotherComplex                     | utils/helper.go:101 | helper    |\<newline>\<newline>\<newline>''
        (fst (Execute sample_ReportData))"
proof -
  let ?quiet = "sample_OverallStats\<lparr>FunctionsOverThreshold := 0,
        AverageComplexity := Finite False 0 0, ComplexityStats := []\<rparr>"
  have q: "Stats sample_ReportData_quiet = Some ?quiet"
    "ComplexityThreshold sample_ReportData_quiet = 15"
    by (simp_all add: sample_ReportData_quiet_def sample_ReportData_def)
  have s: "Stats sample_ReportData = Some sample_OverallStats"
    "ComplexityThreshold sample_ReportData = 15"
    "FunctionsOverThreshold sample_OverallStats = 2"
    by (simp_all add: sample_ReportData_def sample_OverallStats_def)
  from GenerateMarkdownReport_complexity_section [OF sample_runs(4)] q(1)
  have "FunctionsOverThreshold ?quiet = 0 \<longrightarrow>
        suffix (''\<newline>- **Functions Over Threshold:** 0\<newline>\<newline>No functions found with cyclomatic complexity greater than '' @
                show_int (ComplexityThreshold sample_ReportData_quiet) @ ''.\<newline>\<newline>'')
          (fst (Execute sample_ReportData_quiet))"
    by auto
  then have a: "suffix ''\<newline>- **Functions Over Threshold:** 0\<newline>\<newline>No functions found with cyclomatic complexity greater than 15.\<newline>\<newline>''
        (fst (Execute sample_ReportData_quiet))"
    unfolding q(2) show_int_samples by simp
  from GenerateMarkdownReport_complexity_section [OF sample_runs(1)] s(1)
  have "0 < FunctionsOverThreshold sample_OverallStats \<longrightarrow>
        suffix (''\<newline>- **Functions Over Threshold:** '' @ show_int (FunctionsOverThreshold sample_OverallStats) @
                ''\<newline>\<newline>### Functions Over Complexity Threshold\<newline>| Complexity | Function                               | File:Line        | Package        |\<newline>|------------|----------------------------------------|------------------|----------------|\<newline>'' @
                concat (map complexity_row_text (ComplexityStats sample_OverallStats)) @ ''\<newline>\<newline>'')
          (fst (Execute sample_ReportData))"
    by auto
  then have b: "suffix ''\<newline>- **Functions Over Threshold:** 2\<newline>\<newline>### Functions Over Complexity Threshold\<newline>| Complexity | Function                               | File:Line        | Package        |\<newline>|------------|----------------------------------------|------------------|----------------|\<newline>| 20 | complexFunc                     | main.go:42 | main    |\<newline>| 16 | anotherComplex                     | utils/helper.go:101 | helper    |\<newline>\<newline>\<newline>''
        (fst (Execute sample_ReportData))"
    unfolding sample_rows s(3) show_int_samples by simp
  show ?thesis
    using sample_runs(4) a sample_runs(1) b by (intro conjI)
qed

lemma sample_markup_escaped:
  "htmlEscaper ''Jules <b>Verne</b>'' = ''Jules &lt;b&gt;Verne&lt;/b&gt;''"
  "htmlEscaper ''jules@example.com'' = ''jules@example.com''"
  "htmlEscaper [CHR ''a'', CHR 0x27, CHR 0x22, CHR ''>'', CHR ''b''] = ''a&#39;&#34;&gt;b''"
  "htmlEscaper ''https://example.com/repo?a=1&b=2'' = ''https://example.com/repo?a=1&amp;b=2''"
  "htmlEscaper ''.go'' = ''.go''"
  "htmlEscaper ''complexFunc'' = ''complexFunc''"
  by (simp_all add: htmlEscaper_def html_replacement_def)

theorem GenerateMarkdownReport_html_escaped_witness:
  "GenerateMarkdownReport sample_ReportCalls sample_ReportData_markup ''test_report.md'' =
     (None, Some (fst (Execute sample_ReportData_markup)))
   \<and> CHR ''<'' \<notin> set (fst (Execute sample_ReportData_markup))
   \<and> sublist ''- **Author:** Jules &lt;b&gt;Verne&lt;/b&gt; &lt;jules@example.com>\<newline>''
         (fst (Execute sample_ReportData_markup))
   \<and> sublist ''- **Message:** a&#39;&#34;&gt;b'' (fst (Execute sample_ReportData_markup))
   \<and> sublist ''**Repository:** https://example.com/repo?a=1&amp;b=2\<newline>''
         (fst (Execute sample_ReportData_markup))
   \<and> sublist ''| .go | '' (fst (Execute sample_ReportData_markup))
   \<and> sublist '' | complexFunc                     | '' (fst (Execute sample_ReportData_markup))"
proof -
  note t = GenerateMarkdownReport_html_escaped [OF sample_runs(5)]
  have c: "Commit sample_ReportData_markup =
      Some (sample_CommitInfo\<lparr>Author := ''Jules <b>Verne</b>'',
              Message := [CHR ''a'', CHR 0x27, CHR 0x22, CHR ''>'', CHR ''b'']\<rparr>)"
    and r: "RepoURL sample_ReportData_markup = ''https://example.com/repo?a=1&b=2''"
    and s: "Stats sample_ReportData_markup = Some sample_OverallStats"
    by (simp_all add: sample_ReportData_markup_def sample_ReportData_def)
  have f: "Author (sample_CommitInfo\<lparr>Author := ''Jules <b>Verne</b>'',
              Message := [CHR ''a'', CHR 0x27, CHR 0x22, CHR ''>'', CHR ''b'']\<rparr>) = ''Jules <b>Verne</b>''"
    "Email (sample_CommitInfo\<lparr>Author := ''Jules <b>Verne</b>'',
              Message := [CHR ''a'', CHR 0x27, CHR 0x22, CHR ''>'', CHR ''b'']\<rparr>) = ''jules@example.com''"
    "Message (sample_CommitInfo\<lparr>Author := ''Jules <b>Verne</b>'',
              Message := [CHR ''a'', CHR 0x27, CHR 0x22, CHR ''>'', CHR ''b'']\<rparr>)
       = [CHR ''a'', CHR 0x27, CHR 0x22, CHR ''>'', CHR ''b'']"
    by (simp_all add: sample_CommitInfo_def)
  have m: "(''.go'', Some \<lparr>Extension = ''.go'', Count = 5\<rparr>) \<in> set (FileStats sample_OverallStats)"
    "0 < FunctionsOverThreshold sample_OverallStats"
    "\<lparr>Complexity = 20, Package = ''main'', FunctionName = ''complexFunc'',
          File = ''main.go'', Line = 42\<rparr> \<in> set (ComplexityStats sample_OverallStats)"
    by (simp_all add: sample_OverallStats_def)
  from t have "well_escaped (fst (Execute sample_ReportData_markup))"
    by (rule conjunct1)
  then have p1: "CHR ''<'' \<notin> set (fst (Execute sample_ReportData_markup))"
    unfolding well_escaped_def by auto
  from t c have "sublist (''- **Author:** '' @ htmlEscaper ''Jules <b>Verne</b>'' @ '' &lt;'' @
                   htmlEscaper ''jules@example.com'' @ ''>\<newline>'') (fst (Execute sample_ReportData_markup))
          \<and> sublist (''- **Message:** '' @ htmlEscaper [CHR ''a'', CHR 0x27, CHR 0x22, CHR ''>'', CHR ''b''])
               (fst (Execute sample_ReportData_markup))"
    using f by metis
  then have p2: "sublist ''- **Author:** Jules &lt;b&gt;Verne&lt;/b&gt; &lt;jules@example.com>\<newline>''
         (fst (Execute sample_ReportData_markup))"
    and p3: "sublist ''- **Message:** a&#39;&#34;&gt;b'' (fst (Execute sample_ReportData_markup))"
    unfolding sample_markup_escaped by simp_all
  from t have t5: "sublist (''**Repository:** '' @ htmlEscaper (RepoURL sample_ReportData_markup) @ ''\<newline>'')
            (fst (Execute sample_ReportData_markup))
          \<and> (BadgeURL sample_ReportData_markup \<noteq> [] \<longrightarrow>
               sublist (''![ZenWatch Stats]('' @ htmlEscaper (BadgeURL sample_ReportData_markup) @ '')\<newline>'')
                 (fst (Execute sample_ReportData_markup)))
          \<and> (\<exists>st. Stats sample_ReportData_markup = Some st
               \<and> (\<forall>(ext, stat) \<in> set (FileStats st).
                     sublist (''| '' @ htmlEscaper ext @ '' | '') (fst (Execute sample_ReportData_markup)))
               \<and> (0 < FunctionsOverThreshold st \<longrightarrow>
                     (\<forall>cs \<in> set (ComplexityStats st).
                        sublist ('' | '' @ htmlEscaper (FunctionName cs) @
                                 ''                     | '') (fst (Execute sample_ReportData_markup)))))"
    by blast
  then have p4: "sublist ''**Repository:** https://example.com/repo?a=1&amp;b=2\<newline>''
         (fst (Execute sample_ReportData_markup))"
    unfolding r sample_markup_escaped by simp
  from t5 s m(1) have "sublist (''| '' @ htmlEscaper ''.go'' @ '' | '') (fst (Execute sample_ReportData_markup))"
    by fastforce
  then have p5: "sublist ''| .go | '' (fst (Execute sample_ReportData_markup))"
    unfolding sample_markup_escaped by simp
  from t5 s m(2,3) have "sublist ('' | '' @ htmlEscaper ''complexFunc'' @
                                 ''                     | '') (fst (Execute sample_ReportData_markup))"
    by fastforce
  then have p6: "sublist '' | complexFunc                     | '' (fst (Execute sample_ReportData_markup))"
    unfolding sample_markup_escaped by simp
  show ?thesis
    using sample_runs(5) p1 p2 p3 p4 p5 p6 by (intro conjI)
qed

end
